theory Spec2Isabelle
  imports Complex_Main
begin

section \<open>The irrigation decision engine of AI.py\<close>

text \<open>
  The engine of \<^verbatim>\<open>AI.py\<close> is embedded function by function. A reading is a Python
  number, an \<^verbatim>\<open>int\<close> of any size or a finite \<^verbatim>\<open>float\<close>, and is modelled by its value, a
  \<^typ>\<open>real\<close>; comparisons of Python numbers are exact, so they are the comparisons of
  the values. Where the rounding of a float operation decides a classification (the
  products of lines 261 and 262) the operation is rounded as IEEE doubles are, and where
  an \<^verbatim>\<open>int\<close> beyond the range of doubles makes an operation raise, the model raises.
  The arithmetic of the numeric outputs (evapotranspiration, irrigation amount and
  duration) is exact: their last-digit rounding, infinities and NaN are not modelled.
  A Python \<^verbatim>\<open>Dict\<close> of readings is a map from key strings to numbers, and
  \<^verbatim>\<open>d.get(k, default)\<close> is \<open>dict_get\<close>. Exceptions are values of \<open>py_error\<close>; a
  function that can raise returns a sum.
\<close>

subsection \<open>Enumerations\<close>

datatype IrrigationAdvice = IRRIGATE | HOLD | ALERT

fun IrrigationAdvice_value :: "IrrigationAdvice \<Rightarrow> string" where
  "IrrigationAdvice_value IRRIGATE = ''IRRIGATE''"
| "IrrigationAdvice_value HOLD = ''HOLD''"
| "IrrigationAdvice_value ALERT = ''ALERT''"

datatype AlertType =
    LOW_MOISTURE | HIGH_MOISTURE | NUTRIENT_DEFICIENCY | PH_IMBALANCE
  | EXTREME_TEMPERATURE | RAIN_EXPECTED | SENSOR_MALFUNCTION

fun AlertType_value :: "AlertType \<Rightarrow> string" where
  "AlertType_value LOW_MOISTURE = ''LOW_MOISTURE''"
| "AlertType_value HIGH_MOISTURE = ''HIGH_MOISTURE''"
| "AlertType_value NUTRIENT_DEFICIENCY = ''NUTRIENT_DEFICIENCY''"
| "AlertType_value PH_IMBALANCE = ''PH_IMBALANCE''"
| "AlertType_value EXTREME_TEMPERATURE = ''EXTREME_TEMPERATURE''"
| "AlertType_value RAIN_EXPECTED = ''RAIN_EXPECTED''"
| "AlertType_value SENSOR_MALFUNCTION = ''SENSOR_MALFUNCTION''"

datatype py_error = AttributeError | TypeError | OverflowError

subsection \<open>Python numbers\<close>

text \<open>
  Rounding to the nearest double, ties to even: \<open>normalise\<close> scales a positive number
  by powers of two until it lies between \<open>2^52\<close> and \<open>2^53\<close> (or the exponent of the
  subnormal numbers is reached), \<open>round_half_even\<close> rounds the scaled number to an
  integer, and the result is scaled back. The first argument of \<open>normalise\<close> bounds the
  number of steps; 2200 are enough for every double. A result beyond the largest double,
  which Python turns into an infinity, is not modelled.
\<close>

definition round_half_even :: "real \<Rightarrow> int" where
  "round_half_even y =
     (let f = \<lfloor>y\<rfloor>; r = y - of_int f
      in if r < 1 / 2 then f else if 1 / 2 < r then f + 1 else if even f then f else f + 1)"

fun normalise :: "nat \<Rightarrow> real \<Rightarrow> int \<Rightarrow> real \<times> int" where
  "normalise 0 x e = (x, e)"
| "normalise (Suc n) x e =
     (if x < 2 ^ 52 \<and> - 1074 < e then normalise n (2 * x) (e - 1)
      else if 2 ^ 53 \<le> x then normalise n (x / 2) (e + 1)
      else (x, e))"

definition round_to_double :: "real \<Rightarrow> real" where
  "round_to_double x =
     (if x = 0 then 0
      else let (y, e) = normalise 2200 \<bar>x\<bar> 0
           in sgn x * of_int (round_half_even y)
                * (if 0 \<le> e then 2 ^ nat e else 1 / 2 ^ nat (- e)))"

text \<open>
  A float literal of the source denotes the double nearest to its decimal digits
  (\<^verbatim>\<open>1.4\<close> is a little less than 7/5). In the table below the literals that are not
  doubles themselves are wrapped in \<open>py_float\<close>; literals such as \<^verbatim>\<open>1.0\<close>, \<^verbatim>\<open>0.5\<close> or
  \<^verbatim>\<open>6.5\<close> are doubles and stand as they are.
\<close>

definition py_float :: "real \<Rightarrow> real" where
  "py_float x = round_to_double x"

text \<open>The product of two floats (an \<^verbatim>\<open>int\<close> operand below \<open>2^53\<close> converts exactly).\<close>

definition float_mul :: "real \<Rightarrow> real \<Rightarrow> real" where
  "float_mul x y = round_to_double (x * y)"

text \<open>
  An \<^verbatim>\<open>int\<close> is converted to \<^verbatim>\<open>float\<close> when it is formatted with \<^verbatim>\<open>:.1f\<close> and when it meets
  a float in arithmetic. The conversion raises \<^verbatim>\<open>OverflowError\<close> when the \<^verbatim>\<open>int\<close> rounds
  beyond the largest double, that is from \<open>2^1024 - 2^970\<close> on in absolute value. No
  finite float is that large, so the test on the value finds exactly the numbers for which
  the conversion raises.
\<close>

definition float_overflow :: "real \<Rightarrow> bool" where
  "float_overflow x \<longleftrightarrow> 2 ^ 1024 - 2 ^ 970 \<le> \<bar>x\<bar>"

subsection \<open>Crop profiles\<close>

record CropProfile =
  name :: string
  moisture_optimal_min :: real
  moisture_optimal_max :: real
  moisture_critical_min :: real
  moisture_critical_max :: real
  ph_optimal_min :: real
  ph_optimal_max :: real
  nitrogen_min :: real
  phosphorus_min :: real
  potassium_min :: real
  temp_optimal_min :: real
  temp_optimal_max :: real
  growth_stage_factor :: "string \<rightharpoonup> real"

definition tomato_profile :: CropProfile where
  "tomato_profile = \<lparr>
     name = ''Tomato'',
     moisture_optimal_min = 60, moisture_optimal_max = 80,
     moisture_critical_min = 40, moisture_critical_max = 90,
     ph_optimal_min = 6.0, ph_optimal_max = py_float 6.8,
     nitrogen_min = 100, phosphorus_min = 40, potassium_min = 150,
     temp_optimal_min = 18, temp_optimal_max = 28,
     growth_stage_factor = map_of
       [(''seedling'', py_float 0.7), (''vegetative'', 1.0), (''flowering'', py_float 1.2), (''fruiting'', py_float 1.3)] \<rparr>"

definition maize_profile :: CropProfile where
  "maize_profile = \<lparr>
     name = ''Maize'',
     moisture_optimal_min = 55, moisture_optimal_max = 75,
     moisture_critical_min = 35, moisture_critical_max = 85,
     ph_optimal_min = py_float 5.8, ph_optimal_max = 7.0,
     nitrogen_min = 120, phosphorus_min = 50, potassium_min = 100,
     temp_optimal_min = 20, temp_optimal_max = 30,
     growth_stage_factor = map_of
       [(''seedling'', py_float 0.6), (''vegetative'', 1.0), (''tasseling'', py_float 1.4), (''grain_fill'', py_float 1.2)] \<rparr>"

definition potato_profile :: CropProfile where
  "potato_profile = \<lparr>
     name = ''Potato'',
     moisture_optimal_min = 65, moisture_optimal_max = 85,
     moisture_critical_min = 45, moisture_critical_max = 90,
     ph_optimal_min = 5.0, ph_optimal_max = 6.5,
     nitrogen_min = 110, phosphorus_min = 45, potassium_min = 180,
     temp_optimal_min = 15, temp_optimal_max = 24,
     growth_stage_factor = map_of
       [(''planting'', 0.5), (''vegetative'', py_float 0.8), (''tuber_init'', py_float 1.2), (''bulking'', py_float 1.4)] \<rparr>"

definition lettuce_profile :: CropProfile where
  "lettuce_profile = \<lparr>
     name = ''Lettuce'',
     moisture_optimal_min = 70, moisture_optimal_max = 85,
     moisture_critical_min = 50, moisture_critical_max = 90,
     ph_optimal_min = 6.0, ph_optimal_max = 7.0,
     nitrogen_min = 80, phosphorus_min = 30, potassium_min = 120,
     temp_optimal_min = 15, temp_optimal_max = 20,
     growth_stage_factor = map_of
       [(''seedling'', py_float 0.6), (''vegetative'', 1.0), (''heading'', py_float 1.1)] \<rparr>"

definition default_profile :: CropProfile where
  "default_profile = \<lparr>
     name = ''Generic Crop'',
     moisture_optimal_min = 60, moisture_optimal_max = 80,
     moisture_critical_min = 40, moisture_critical_max = 90,
     ph_optimal_min = 6.0, ph_optimal_max = 7.0,
     nitrogen_min = 100, phosphorus_min = 40, potassium_min = 150,
     temp_optimal_min = 18, temp_optimal_max = 28,
     growth_stage_factor = map_of [(''default'', 1.0)] \<rparr>"

definition CROP_PROFILES :: "string \<rightharpoonup> CropProfile" where
  "CROP_PROFILES = map_of
     [(''tomato'', tomato_profile),
      (''maize'', maize_profile),
      (''potato'', potato_profile),
      (''lettuce'', lettuce_profile),
      (''default'', default_profile)]"

subsection \<open>Python helpers\<close>

text \<open>\<^verbatim>\<open>d.get(k, default)\<close> on a dictionary.\<close>

definition dict_get :: "('k \<rightharpoonup> 'v) \<Rightarrow> 'k \<Rightarrow> 'v \<Rightarrow> 'v" where
  "dict_get d k dflt = (case d k of None \<Rightarrow> dflt | Some v \<Rightarrow> v)"

text \<open>
  \<^verbatim>\<open>str.lower()\<close>: the letters A to Z are mapped to a to z, every other character is
  kept. (Beyond ASCII, no character lowers to a letter occurring in a key of the table
  except through the letters modelled here.)
\<close>

definition ascii_uppercase :: string where
  "ascii_uppercase = ''ABCDEFGHIJKLMNOPQRSTUVWXYZ''"

definition ascii_lowercase :: string where
  "ascii_lowercase = ''abcdefghijklmnopqrstuvwxyz''"

definition lower_char :: "char \<Rightarrow> char" where
  "lower_char c = dict_get (map_of (zip ascii_uppercase ascii_lowercase)) c c"

definition lower :: "string \<Rightarrow> string" where
  "lower s = map lower_char s"

text \<open>
  Line 127, \<^verbatim>\<open>CROP_PROFILES.get(crop_type.lower(), CROP_PROFILES['default'])\<close>. The
  argument is a string or Python's \<^verbatim>\<open>None\<close> (a JSON \<^verbatim>\<open>null\<close> reaches it through
  \<^verbatim>\<open>data.get('crop_type', 'default')\<close>); \<^verbatim>\<open>None\<close> has no method \<^verbatim>\<open>lower\<close>.
\<close>

definition lookup_crop :: "string option \<Rightarrow> py_error + CropProfile" where
  "lookup_crop crop_type =
     (case crop_type of
        None \<Rightarrow> Inl AttributeError
      | Some s \<Rightarrow> Inr (dict_get CROP_PROFILES (lower s) default_profile))"

subsection \<open>Classifiers\<close>

definition analyze_moisture :: "real \<Rightarrow> CropProfile \<Rightarrow> string \<Rightarrow> string" where
  "analyze_moisture moisture crop growth_stage =
     (let stage_factor = dict_get (growth_stage_factor crop) growth_stage 1.0;
          optimal_min = float_mul (moisture_optimal_min crop) stage_factor;
          optimal_max = float_mul (moisture_optimal_max crop) stage_factor
      in if moisture < moisture_critical_min crop then ''CRITICALLY_LOW''
         else if moisture < optimal_min then ''LOW''
         else if moisture \<le> optimal_max then ''OPTIMAL''
         else if moisture \<le> moisture_critical_max crop then ''HIGH''
         else ''CRITICALLY_HIGH'')"

definition analyze_weather :: "(string \<rightharpoonup> real) \<Rightarrow> string" where
  "analyze_weather weather =
     (let rain_prob = dict_get weather ''rain_probability'' 0;
          temp = dict_get weather ''temperature'' 25
      in if rain_prob > 70 then ''HEAVY_RAIN_EXPECTED''
         else if rain_prob > 40 then ''RAIN_LIKELY''
         else if temp > 35 then ''EXTREME_HEAT''
         else if temp < 5 then ''EXTREME_COLD''
         else ''NORMAL'')"

definition analyze_nutrients :: "real \<Rightarrow> real \<Rightarrow> real \<Rightarrow> CropProfile \<Rightarrow> string" where
  "analyze_nutrients n p k crop =
     (let n_ok = (n \<ge> nitrogen_min crop);
          p_ok = (p \<ge> phosphorus_min crop);
          k_ok = (k \<ge> potassium_min crop)
      in if n_ok \<and> p_ok \<and> k_ok then ''ADEQUATE''
         else if \<not> n_ok \<or> \<not> p_ok \<or> \<not> k_ok then ''DEFICIENT''
         else ''BORDERLINE'')"

subsection \<open>Decision policy\<close>

definition make_decision ::
  "real \<Rightarrow> string \<Rightarrow> string \<Rightarrow> real \<Rightarrow> CropProfile \<Rightarrow> string list \<Rightarrow> IrrigationAdvice" where
  "make_decision moisture moisture_status weather_status rain_prob crop alerts =
     (if moisture_status \<in> set [''CRITICALLY_LOW'', ''CRITICALLY_HIGH''] then ALERT
      else if AlertType_value SENSOR_MALFUNCTION \<in> set alerts then ALERT
      else if weather_status \<in> set [''HEAVY_RAIN_EXPECTED'', ''RAIN_LIKELY''] then HOLD
      else if moisture_status \<in> set [''OPTIMAL'', ''HIGH''] then HOLD
      else if rain_prob > 60 then HOLD
      else if moisture_status = ''LOW'' \<and> rain_prob < 30 then IRRIGATE
      else HOLD)"

subsection \<open>Derived quantities\<close>

text \<open>
  \<^verbatim>\<open>wind**0.5\<close> is the square root for a wind speed that is not negative. For a negative
  one Python's power gives a complex number, \<^verbatim>\<open>base_et\<close> and \<^verbatim>\<open>et_daily\<close> are complex,
  and the comparison inside \<^verbatim>\<open>max(0, et_daily)\<close> raises \<^verbatim>\<open>TypeError\<close>.
\<close>

definition calculate_et ::
  "real \<Rightarrow> real \<Rightarrow> real \<Rightarrow> string \<Rightarrow> CropProfile \<Rightarrow> py_error + real" where
  "calculate_et temp humidity wind growth_stage crop =
     (if wind < 0 then Inl TypeError
      else
        let base_et = 0.0023 * (temp + 17.8) * (temp - humidity / 10) * sqrt wind;
            stage_factor = dict_get (growth_stage_factor crop) growth_stage 1.0;
            et_daily = base_et * stage_factor * 1.2
        in Inr (max 0 et_daily))"

definition calculate_duration :: "real \<Rightarrow> real \<Rightarrow> real" where
  "calculate_duration amount_mm flow_rate = (amount_mm / flow_rate) * 60"

definition next_check_interval :: "IrrigationAdvice \<Rightarrow> string \<Rightarrow> int" where
  "next_check_interval decision weather =
     (if decision = ALERT then 2
      else if decision = IRRIGATE then 12
      else if weather \<in> set [''HEAVY_RAIN_EXPECTED'', ''RAIN_LIKELY''] then 6
      else 24)"

subsection \<open>The decision record and the engine\<close>

text \<open>
  The response dictionary is a record; its nested dictionaries are records of their own,
  with the field names prefixed by the block they belong to. A reason, in the source an
  f-string, is kept as the tag of its template together with the numbers it interpolates.
  \<^verbatim>\<open>list(set(alerts))\<close> removes duplicates in an order that Python does not fix, so
  the field is the set itself.
\<close>

datatype reason =
    Critical_moisture_min real real
  | Critical_moisture_max real real
  | Rain_expected_reason real real
  | Low_nitrogen real real
  | Low_phosphorus real real
  | Low_potassium real real
  | Ph_imbalance_reason real real real
  | Soil_temp_reason real real real
  | Recommended_irrigation real real

record nutrients_info =
  nut_nitrogen :: real
  nut_phosphorus :: real
  nut_potassium :: real
  nut_status :: string

record soil_info =
  soil_moisture :: real
  soil_moisture_status :: string
  soil_ph :: real
  soil_temperature :: real
  soil_nutrients :: nutrients_info

record weather_info =
  weather_temperature :: real
  weather_humidity :: real
  weather_rain_probability :: real
  weather_rain_amount :: real
  weather_wind_speed :: real
  weather_status_r :: string

record et_info =
  daily_et_mm :: real
  water_loss_rate :: string

record analysis_info =
  an_soil :: soil_info
  an_weather :: weather_info
  an_evapotranspiration :: et_info

record recommendations_info =
  irrigation_amount_mm :: real
  irrigation_duration_minutes :: real
  next_check_hours :: int

record response =
  r_timestamp :: string
  r_decision :: string
  r_confidence :: int
  r_crop :: string
  r_growth_stage :: string
  r_analysis :: analysis_info
  r_alerts :: "string set"
  r_reasons :: "reason list"
  r_recommendations :: recommendations_info

text \<open>
  \<^verbatim>\<open>analyze\<close>, lines 107 to 255. The method is one long body; it is embedded in the
  blocks its own comments number, and \<open>and_then\<close> passes the result of a block on to the
  next one unless the block raised.
\<close>

definition and_then :: "py_error + 'a \<Rightarrow> ('a \<Rightarrow> py_error + 'b) \<Rightarrow> py_error + 'b" where
  "and_then m f = (case m of Inl e \<Rightarrow> Inl e | Inr x \<Rightarrow> f x)"

text \<open>
  The body of an alert block: \<^verbatim>\<open>alerts.append(tag)\<close> and
  \<^verbatim>\<open>reasons.append(f"... {x:.1f} ...")\<close>. Each of these f-strings formats exactly one
  reading \<open>x\<close> with \<^verbatim>\<open>:.1f\<close>, which raises \<^verbatim>\<open>OverflowError\<close> for an \<^verbatim>\<open>int\<close> beyond the
  range of doubles; the other fields of the f-strings have no format and cannot raise.
\<close>

definition append_alert ::
  "string \<Rightarrow> real \<Rightarrow> reason \<Rightarrow> string list \<times> reason list \<Rightarrow> py_error + string list \<times> reason list" where
  "append_alert alert x reason collected =
     (if float_overflow x then Inl OverflowError
      else Inr (fst collected @ [alert], snd collected @ [reason]))"

text \<open>
  \<open>collect_alerts\<close> is the part of steps 1 to 5 that appends to the local lists
  \<^verbatim>\<open>alerts\<close> and \<^verbatim>\<open>reasons\<close> (lines 152--157, 162--164, 169--177, 180--182, 185--187), in
  the order of the source: each \<^verbatim>\<open>if\<close> passes on the pair of lists, extended or
  unchanged, or raises.
\<close>

definition collect_alerts ::
  "real \<Rightarrow> real \<Rightarrow> real \<Rightarrow> real \<Rightarrow> real \<Rightarrow> real \<Rightarrow> real \<Rightarrow> real \<Rightarrow> CropProfile \<Rightarrow>
     py_error + string list \<times> reason list" where
  "collect_alerts moisture rain_probability rain_amount nitrogen phosphorus potassium ph soil_temp crop =
     and_then
       (if moisture < moisture_critical_min crop then
          append_alert (AlertType_value LOW_MOISTURE) moisture
            (Critical_moisture_min moisture (moisture_critical_min crop)) ([], [])
        else if moisture > moisture_critical_max crop then
          append_alert (AlertType_value HIGH_MOISTURE) moisture
            (Critical_moisture_max moisture (moisture_critical_max crop)) ([], [])
        else Inr ([], []))
     (\<lambda>lists1. and_then
       (if rain_probability > 60 then
          append_alert (AlertType_value RAIN_EXPECTED) rain_amount
            (Rain_expected_reason rain_probability rain_amount) lists1
        else Inr lists1)
     (\<lambda>lists2. and_then
       (if nitrogen < nitrogen_min crop then
          append_alert (AlertType_value NUTRIENT_DEFICIENCY) nitrogen
            (Low_nitrogen nitrogen (nitrogen_min crop)) lists2
        else Inr lists2)
     (\<lambda>lists3. and_then
       (if phosphorus < phosphorus_min crop then
          append_alert (AlertType_value NUTRIENT_DEFICIENCY) phosphorus
            (Low_phosphorus phosphorus (phosphorus_min crop)) lists3
        else Inr lists3)
     (\<lambda>lists4. and_then
       (if potassium < potassium_min crop then
          append_alert (AlertType_value NUTRIENT_DEFICIENCY) potassium
            (Low_potassium potassium (potassium_min crop)) lists4
        else Inr lists4)
     (\<lambda>lists5. and_then
       (if \<not> (ph_optimal_min crop \<le> ph \<and> ph \<le> ph_optimal_max crop) then
          append_alert (AlertType_value PH_IMBALANCE) ph
            (Ph_imbalance_reason ph (ph_optimal_min crop) (ph_optimal_max crop)) lists5
        else Inr lists5)
     (\<lambda>lists6.
        if soil_temp < temp_optimal_min crop \<or> soil_temp > temp_optimal_max crop then
          append_alert (AlertType_value EXTREME_TEMPERATURE) soil_temp
            (Soil_temp_reason soil_temp (temp_optimal_min crop) (temp_optimal_max crop)) lists6
        else Inr lists6))))))"

text \<open>
  Step 7, line 196. \<^verbatim>\<open>_calculate_et\<close> declares floats, and \<open>calculate_et\<close> is stated on
  them; \<^verbatim>\<open>analyze\<close> passes it readings, which may be \<^verbatim>\<open>int\<close>s. Line 337 converts them in
  \<^verbatim>\<open>temp + 17.8\<close>, in \<^verbatim>\<open>humidity/10\<close> (the quotient of two \<^verbatim>\<open>int\<close>s is a float) and in
  \<^verbatim>\<open>wind**0.5\<close>, and each conversion raises \<^verbatim>\<open>OverflowError\<close> beyond the range of
  doubles, before the comparison of line 343 is reached.
\<close>

definition evapotranspiration_of_readings ::
  "real \<Rightarrow> real \<Rightarrow> real \<Rightarrow> string \<Rightarrow> CropProfile \<Rightarrow> py_error + real" where
  "evapotranspiration_of_readings temperature humidity wind_speed growth_stage crop =
     (if float_overflow temperature \<or> float_overflow (humidity / 10) \<or> float_overflow wind_speed
      then Inl OverflowError
      else calculate_et temperature humidity wind_speed growth_stage crop)"

text \<open>
  Step 8, lines 199 to 208: the amount, the duration and the reasons after the block. The
  deficit divided by 100 is a float, and its product with a field capacity that is an
  \<^verbatim>\<open>int\<close> beyond the range of doubles raises \<^verbatim>\<open>OverflowError\<close>; the amount and the
  duration are floats, which the f-string of line 208 formats without raising.
\<close>

definition irrigation_recommendation ::
  "IrrigationAdvice \<Rightarrow> CropProfile \<Rightarrow> real \<Rightarrow> real \<Rightarrow> reason list \<Rightarrow>
     py_error + real \<times> real \<times> reason list" where
  "irrigation_recommendation decision crop moisture field_capacity reasons =
     (if decision = IRRIGATE then
        let moisture_deficit = moisture_optimal_max crop - moisture
        in if float_overflow field_capacity then Inl OverflowError
           else
             let irrigation_amount = (moisture_deficit / 100) * field_capacity;
                 irrigation_duration = calculate_duration irrigation_amount 10.0
             in Inr (irrigation_amount, irrigation_duration,
                     reasons @ [Recommended_irrigation irrigation_amount irrigation_duration])
      else Inr (0, 0, reasons))"

text \<open>Line 240, the band of the evapotranspiration estimate.\<close>

definition water_loss_rate_of :: "real \<Rightarrow> string" where
  "water_loss_rate_of et_rate =
     (if 3 \<le> et_rate \<and> et_rate \<le> 7 then ''moderate''
      else (if et_rate < 3 then ''low'' else ''high''))"

text \<open>
  The engine's only state is \<^verbatim>\<open>self.decision_log\<close>, passed in and returned; \<open>now\<close>
  stands for \<^verbatim>\<open>datetime.now().isoformat()\<close>. An exception leaves the method before
  line 253, so the log is returned only together with a response.
\<close>

definition analyze ::
  "response list \<Rightarrow> string \<Rightarrow> (string \<rightharpoonup> real) \<Rightarrow> (string \<rightharpoonup> real) \<Rightarrow> string option \<Rightarrow>
     string \<Rightarrow> real \<Rightarrow> py_error + (response \<times> response list)" where
  "analyze decision_log now soil_data weather_data crop_type growth_stage field_capacity =
     and_then (lookup_crop crop_type)
     (\<lambda>crop.
        let moisture = dict_get soil_data ''soil_moisture'' 50;
            ph = dict_get soil_data ''ph'' 6.5;
            nitrogen = dict_get soil_data ''nitrogen'' 100;
            phosphorus = dict_get soil_data ''phosphorus'' 40;
            potassium = dict_get soil_data ''potassium'' 150;
            soil_temp = dict_get soil_data ''temperature'' 22;
            rain_probability = dict_get weather_data ''rain_probability'' 0;
            rain_amount = dict_get weather_data ''rain_amount_mm'' 0;
            temperature = dict_get weather_data ''temperature'' 25;
            humidity = dict_get weather_data ''humidity'' 60;
            wind_speed = dict_get weather_data ''wind_speed'' 5;
            confidence_score = 100;
            moisture_status = analyze_moisture moisture crop growth_stage;
            weather_status = analyze_weather weather_data;
            nutrient_status = analyze_nutrients nitrogen phosphorus potassium crop
        in and_then
             (collect_alerts moisture rain_probability rain_amount nitrogen phosphorus
                potassium ph soil_temp crop)
           (\<lambda>(alerts, reasons7).
              let decision = make_decision moisture moisture_status weather_status
                               rain_probability crop alerts
              in and_then
                   (evapotranspiration_of_readings temperature humidity wind_speed
                      growth_stage crop)
                 (\<lambda>et_rate. and_then
                   (irrigation_recommendation decision crop moisture field_capacity reasons7)
                 (\<lambda>(irrigation_amount, irrigation_duration, reasons).
                    let response = \<lparr>
                          r_timestamp = now,
                          r_decision = IrrigationAdvice_value decision,
                          r_confidence = confidence_score,
                          r_crop = name crop,
                          r_growth_stage = growth_stage,
                          r_analysis = \<lparr>
                            an_soil = \<lparr>
                              soil_moisture = moisture,
                              soil_moisture_status = moisture_status,
                              soil_ph = ph,
                              soil_temperature = soil_temp,
                              soil_nutrients = \<lparr>
                                nut_nitrogen = nitrogen,
                                nut_phosphorus = phosphorus,
                                nut_potassium = potassium,
                                nut_status = nutrient_status \<rparr> \<rparr>,
                            an_weather = \<lparr>
                              weather_temperature = temperature,
                              weather_humidity = humidity,
                              weather_rain_probability = rain_probability,
                              weather_rain_amount = rain_amount,
                              weather_wind_speed = wind_speed,
                              weather_status_r = weather_status \<rparr>,
                            an_evapotranspiration = \<lparr>
                              daily_et_mm = et_rate,
                              water_loss_rate = water_loss_rate_of et_rate \<rparr> \<rparr>,
                          r_alerts = set alerts,
                          r_reasons = reasons,
                          r_recommendations = \<lparr>
                            irrigation_amount_mm = irrigation_amount,
                            irrigation_duration_minutes = irrigation_duration,
                            next_check_hours = next_check_interval decision weather_status \<rparr> \<rparr>
                    in Inr (response, decision_log @ [response])))))"

text \<open>
  The log after a call: what the call returned with its response, and the log as it was
  when the call raised, since nothing is appended before line 253.
\<close>

definition decision_log_after ::
  "response list \<Rightarrow> string \<Rightarrow> (string \<rightharpoonup> real) \<Rightarrow> (string \<rightharpoonup> real) \<Rightarrow> string option \<Rightarrow>
     string \<Rightarrow> real \<Rightarrow> response list" where
  "decision_log_after decision_log now soil_data weather_data crop_type growth_stage field_capacity =
     (case analyze decision_log now soil_data weather_data crop_type growth_stage field_capacity of
        Inl e \<Rightarrow> decision_log
      | Inr (response, decision_log') \<Rightarrow> decision_log')"

text \<open>
  The readings of a call lie within the range of doubles: none of the numbers in the two
  dictionaries is an \<^verbatim>\<open>int\<close> too large to be formatted or converted to a \<^verbatim>\<open>float\<close>.
\<close>

definition readings_in_float_range :: "(string \<rightharpoonup> real) \<Rightarrow> (string \<rightharpoonup> real) \<Rightarrow> bool" where
  "readings_in_float_range soil_data weather_data \<longleftrightarrow>
     (\<forall>v \<in> ran soil_data \<union> ran weather_data. \<not> float_overflow v)"

subsection \<open>The policy and the classifier as the specification words them\<close>

text \<open>
  The specification describes the decision policy as an ordered list of rules, the first
  matching rule giving the result and \<open>HOLD\<close> being the default. \<open>policy_rules\<close> is that
  list, a rule being a test on the four inputs with its action, and \<open>first_match\<close> runs
  a list of rules.
\<close>

type_synonym policy_rule = "(string \<Rightarrow> string \<Rightarrow> real \<Rightarrow> string list \<Rightarrow> bool) \<times> IrrigationAdvice"

definition policy_rules :: "policy_rule list" where
  "policy_rules =
     [(\<lambda>ms ws rp al. ms = ''CRITICALLY_LOW'' \<or> ms = ''CRITICALLY_HIGH'', ALERT),
      (\<lambda>ms ws rp al. ''SENSOR_MALFUNCTION'' \<in> set al, ALERT),
      (\<lambda>ms ws rp al. ws = ''HEAVY_RAIN_EXPECTED'' \<or> ws = ''RAIN_LIKELY'', HOLD),
      (\<lambda>ms ws rp al. ms = ''OPTIMAL'' \<or> ms = ''HIGH'', HOLD),
      (\<lambda>ms ws rp al. rp > 60, HOLD),
      (\<lambda>ms ws rp al. ms = ''LOW'' \<and> rp < 30, IRRIGATE)]"

fun first_match :: "policy_rule list \<Rightarrow> string \<Rightarrow> string \<Rightarrow> real \<Rightarrow> string list \<Rightarrow> IrrigationAdvice" where
  "first_match [] ms ws rp al = HOLD"
| "first_match (rule # rules) ms ws rp al =
     (if fst rule ms ws rp al then snd rule else first_match rules ms ws rp al)"

definition policy_spec :: "string \<Rightarrow> string \<Rightarrow> real \<Rightarrow> string list \<Rightarrow> IrrigationAdvice" where
  "policy_spec ms ws rp al = first_match policy_rules ms ws rp al"

text \<open>
  The five grades of the moisture classifier in the words of the specification: the stage
  factor is 1.0 for a stage the profile does not list, it scales the optimal bounds and
  leaves the critical bounds alone. The product is the product of the program, of two
  floats.
\<close>

definition stage_factor_of :: "CropProfile \<Rightarrow> string \<Rightarrow> real" where
  "stage_factor_of crop stage =
     (case growth_stage_factor crop stage of None \<Rightarrow> 1.0 | Some f \<Rightarrow> f)"


text \<open>
  Matching without regard to case, stated on its own: two characters are the same letter
  when they are equal or one is the capital of the other, and two strings are equal
  ignoring case when they have the same letters position by position.
\<close>

definition same_letter :: "char \<Rightarrow> char \<Rightarrow> bool" where
  "same_letter c d \<longleftrightarrow>
     c = d \<or> (c, d) \<in> set (zip ascii_uppercase ascii_lowercase)
           \<or> (d, c) \<in> set (zip ascii_uppercase ascii_lowercase)"

definition equal_ignoring_case :: "string \<Rightarrow> string \<Rightarrow> bool" where
  "equal_ignoring_case s t = list_all2 same_letter s t"

section \<open>Properties\<close>

subsection \<open>Numbers\<close>

lemma normalise_numeral:
  "normalise (numeral k) x e =
     (if x < 2 ^ 52 \<and> - 1074 < e then normalise (pred_numeral k) (2 * x) (e - 1)
      else if 2 ^ 53 \<le> x then normalise (pred_numeral k) (x / 2) (e + 1)
      else (x, e))"
  by (simp add: numeral_eq_Suc)

lemmas round_to_double_eval = round_to_double_def round_half_even_def Let_def normalise_numeral

lemmas float_eval = float_mul_def py_float_def round_to_double_eval

lemma float_mul_values:
  "float_mul 60 1 = 60" "float_mul 80 1 = 80"
  "float_mul 65 0.5 = 32.5" "float_mul 85 0.5 = 42.5"
  "float_mul 55 (py_float 1.4) = 77"
  "float_mul 85 (py_float 1.4) = 119 - 1 / 2 ^ 46"
  "float_mul 85 (py_float 1.1) = 93.5 + 1 / 2 ^ 46"
  by (simp_all add: float_eval)

lemma float_overflow_small: "\<bar>x\<bar> \<le> 1000 \<Longrightarrow> \<not> float_overflow x"
  by (simp add: float_overflow_def)

lemma float_overflow_div10: "\<not> float_overflow x \<Longrightarrow> \<not> float_overflow (x / 10)"
  by (simp add: float_overflow_def)

lemma dict_get_in_range:
  "\<forall>v \<in> ran d. \<not> float_overflow v \<Longrightarrow> \<not> float_overflow dflt \<Longrightarrow> \<not> float_overflow (dict_get d k dflt)"
  by (auto simp: dict_get_def ran_def split: option.splits)

lemma stage_factor_of_eq:
  "dict_get (growth_stage_factor crop) gs 1.0 = stage_factor_of crop gs"
  by (simp add: dict_get_def stage_factor_of_def split: option.splits)


subsection \<open>Case-insensitive keys\<close>

lemma lower_char_pair:
  assumes "(c, d) \<in> set (zip ascii_uppercase ascii_lowercase)"
  shows "lower_char c = d \<and> lower_char d = d"
proof -
  from assms have "(c, d) \<in> set [(CHR ''A'', CHR ''a''), (CHR ''B'', CHR ''b''), (CHR ''C'', CHR ''c''),
    (CHR ''D'', CHR ''d''), (CHR ''E'', CHR ''e''), (CHR ''F'', CHR ''f''), (CHR ''G'', CHR ''g''),
    (CHR ''H'', CHR ''h''), (CHR ''I'', CHR ''i''), (CHR ''J'', CHR ''j''), (CHR ''K'', CHR ''k''),
    (CHR ''L'', CHR ''l''), (CHR ''M'', CHR ''m''), (CHR ''N'', CHR ''n''), (CHR ''O'', CHR ''o''),
    (CHR ''P'', CHR ''p''), (CHR ''Q'', CHR ''q''), (CHR ''R'', CHR ''r''), (CHR ''S'', CHR ''s''),
    (CHR ''T'', CHR ''t''), (CHR ''U'', CHR ''u''), (CHR ''V'', CHR ''v''), (CHR ''W'', CHR ''w''),
    (CHR ''X'', CHR ''x''), (CHR ''Y'', CHR ''y''), (CHR ''Z'', CHR ''z'')]"
    by (simp add: ascii_uppercase_def ascii_lowercase_def)
  then show ?thesis
    unfolding set_simps insert_iff empty_iff prod.inject
    by (elim disjE conjE FalseE; hypsubst; simp add: lower_char_def dict_get_def ascii_uppercase_def ascii_lowercase_def)
qed

lemma same_letter_lower_char: "same_letter c d \<Longrightarrow> lower_char c = lower_char d"
  unfolding same_letter_def using lower_char_pair [of c d] lower_char_pair [of d c] by auto

lemma same_letter_lower_char_self: "same_letter c (lower_char c)"
proof (cases "map_of (zip ascii_uppercase ascii_lowercase) c")
  case None
  then show ?thesis by (simp add: same_letter_def lower_char_def dict_get_def)
next
  case (Some d)
  then have "(c, d) \<in> set (zip ascii_uppercase ascii_lowercase)" by (rule map_of_SomeD)
  with Some show ?thesis by (simp add: same_letter_def lower_char_def dict_get_def)
qed

lemma equal_ignoring_case_lower: "equal_ignoring_case s t \<Longrightarrow> lower s = lower t"
  unfolding equal_ignoring_case_def lower_def
  by (induction s t rule: list_all2_induct) (simp_all add: same_letter_lower_char)

lemma equal_ignoring_case_lower_self: "equal_ignoring_case s (lower s)"
  unfolding equal_ignoring_case_def lower_def
  by (induction s) (simp_all add: same_letter_lower_char_self)

lemma CROP_PROFILES_keys:
  "CROP_PROFILES k = Some p \<Longrightarrow> k \<in> {''tomato'', ''maize'', ''potato'', ''lettuce'', ''default''}"
  by (simp add: CROP_PROFILES_def split: if_splits)

lemma lower_keys:
  "lower ''tomato'' = ''tomato''" "lower ''maize'' = ''maize''" "lower ''potato'' = ''potato''"
  "lower ''lettuce'' = ''lettuce''" "lower ''default'' = ''default''"
  by (simp_all add: lower_def lower_char_def ascii_uppercase_def ascii_lowercase_def dict_get_def)

lemma CROP_PROFILES_key_lower: "CROP_PROFILES k = Some p \<Longrightarrow> lower k = k"
  using CROP_PROFILES_keys [of k p] lower_keys by auto

subsection \<open>The engine\<close>

text \<open>
  What \<^verbatim>\<open>analyze\<close> returns: it raises for \<^verbatim>\<open>None\<close> as crop type, for a reading
  beyond the range of doubles where it is formatted or converted, and for a negative wind
  speed; otherwise it returns a record, appended to the log, whose decision is the
  policy's answer on the two classifications.
\<close>

lemma and_then_Inr_iff: "and_then m f = Inr y \<longleftrightarrow> (\<exists>x. m = Inr x \<and> f x = Inr y)"
  by (cases m) (simp_all add: and_then_def)

lemma and_then_Inr: "m = Inr x \<Longrightarrow> and_then m f = f x"
  by (simp add: and_then_def)

lemma and_then_Inl: "m = Inl e \<Longrightarrow> and_then m f = Inl e"
  by (simp add: and_then_def)

lemma ex_and_then: "(\<exists>y. and_then m f = Inr y) \<longleftrightarrow> (\<exists>x. m = Inr x \<and> (\<exists>y. f x = Inr y))"
  by (auto simp: and_then_Inr_iff)

lemma alert_step_ex:
  "(\<exists>st'. (if c then append_alert a x r st else Inr st) = Inr st') \<longleftrightarrow> (c \<longrightarrow> \<not> float_overflow x)"
  by (simp add: append_alert_def)

lemma alert_step3_ex:
  "(\<exists>st'. (if c then append_alert a x r st else if d then append_alert a' x r' st else Inr st) = Inr st')
     \<longleftrightarrow> (c \<or> d \<longrightarrow> \<not> float_overflow x)"
  by (simp add: append_alert_def)

lemma alert_step_inv:
  "(if c then append_alert a x r st else Inr st) = Inr st' \<Longrightarrow> z \<noteq> a \<Longrightarrow> z \<notin> set (fst st)
     \<Longrightarrow> z \<notin> set (fst st')"
  by (auto simp: append_alert_def split: if_splits)

lemma alert_step3_inv:
  "(if c then append_alert a x r st else if d then append_alert a' x r' st else Inr st) = Inr st'
     \<Longrightarrow> z \<noteq> a \<Longrightarrow> z \<noteq> a' \<Longrightarrow> z \<notin> set (fst st) \<Longrightarrow> z \<notin> set (fst st')"
  by (auto simp: append_alert_def split: if_splits)

lemma collect_alerts_no_malfunction:
  assumes "collect_alerts m rp ra n p k ph t crop = Inr st"
  shows "AlertType_value SENSOR_MALFUNCTION \<notin> set (fst st)"
proof -
  let ?z = "AlertType_value SENSOR_MALFUNCTION"
  from assms [unfolded collect_alerts_def and_then_Inr_iff]
  obtain s1 s2 s3 s4 s5 s6 where
    e1: "(if m < moisture_critical_min crop then
            append_alert (AlertType_value LOW_MOISTURE) m
              (Critical_moisture_min m (moisture_critical_min crop)) ([], [])
          else if m > moisture_critical_max crop then
            append_alert (AlertType_value HIGH_MOISTURE) m
              (Critical_moisture_max m (moisture_critical_max crop)) ([], [])
          else Inr ([], [])) = Inr s1"
    and e2: "(if rp > 60 then append_alert (AlertType_value RAIN_EXPECTED) ra
              (Rain_expected_reason rp ra) s1 else Inr s1) = Inr s2"
    and e3: "(if n < nitrogen_min crop then append_alert (AlertType_value NUTRIENT_DEFICIENCY) n
              (Low_nitrogen n (nitrogen_min crop)) s2 else Inr s2) = Inr s3"
    and e4: "(if p < phosphorus_min crop then append_alert (AlertType_value NUTRIENT_DEFICIENCY) p
              (Low_phosphorus p (phosphorus_min crop)) s3 else Inr s3) = Inr s4"
    and e5: "(if k < potassium_min crop then append_alert (AlertType_value NUTRIENT_DEFICIENCY) k
              (Low_potassium k (potassium_min crop)) s4 else Inr s4) = Inr s5"
    and e6: "(if \<not> (ph_optimal_min crop \<le> ph \<and> ph \<le> ph_optimal_max crop) then
              append_alert (AlertType_value PH_IMBALANCE) ph
                (Ph_imbalance_reason ph (ph_optimal_min crop) (ph_optimal_max crop)) s5
              else Inr s5) = Inr s6"
    and e7: "(if t < temp_optimal_min crop \<or> t > temp_optimal_max crop then
              append_alert (AlertType_value EXTREME_TEMPERATURE) t
                (Soil_temp_reason t (temp_optimal_min crop) (temp_optimal_max crop)) s6
              else Inr s6) = Inr st"
    by blast
  have i1: "?z \<notin> set (fst s1)" by (rule alert_step3_inv [OF e1]) simp_all
  have i2: "?z \<notin> set (fst s2)" by (rule alert_step_inv [OF e2 _ i1]) simp
  have i3: "?z \<notin> set (fst s3)" by (rule alert_step_inv [OF e3 _ i2]) simp
  have i4: "?z \<notin> set (fst s4)" by (rule alert_step_inv [OF e4 _ i3]) simp
  have i5: "?z \<notin> set (fst s5)" by (rule alert_step_inv [OF e5 _ i4]) simp
  have i6: "?z \<notin> set (fst s6)" by (rule alert_step_inv [OF e6 _ i5]) simp
  show ?thesis by (rule alert_step_inv [OF e7 _ i6]) simp
qed

lemma collect_alerts_returns_iff:
  "(\<exists>st. collect_alerts m rp ra n p k ph t crop = Inr st) \<longleftrightarrow>
     (m < moisture_critical_min crop \<or> m > moisture_critical_max crop \<longrightarrow> \<not> float_overflow m)
     \<and> (rp > 60 \<longrightarrow> \<not> float_overflow ra)
     \<and> (n < nitrogen_min crop \<longrightarrow> \<not> float_overflow n)
     \<and> (p < phosphorus_min crop \<longrightarrow> \<not> float_overflow p)
     \<and> (k < potassium_min crop \<longrightarrow> \<not> float_overflow k)
     \<and> (\<not> (ph_optimal_min crop \<le> ph \<and> ph \<le> ph_optimal_max crop) \<longrightarrow> \<not> float_overflow ph)
     \<and> (t < temp_optimal_min crop \<or> t > temp_optimal_max crop \<longrightarrow> \<not> float_overflow t)"
  unfolding collect_alerts_def
  by (simp only: ex_and_then alert_step_ex alert_step3_ex ex_simps simp_thms)


lemma make_decision_alerts:
  "AlertType_value SENSOR_MALFUNCTION \<notin> set alerts \<Longrightarrow>
     make_decision m ms ws rp crop alerts = make_decision m ms ws rp crop []"
  by (simp add: make_decision_def)

lemma make_decision_critically_low:
  "make_decision m ''CRITICALLY_LOW'' ws rp crop alerts = ALERT"
  by (simp add: make_decision_def)

lemma analyze_moisture_critically_low:
  "m < moisture_critical_min crop \<Longrightarrow> analyze_moisture m crop gs = ''CRITICALLY_LOW''"
  by (simp add: analyze_moisture_def Let_def)

lemma calculate_et_Inr:
  "0 \<le> wind \<Longrightarrow> \<exists>et. calculate_et temp humidity wind gs crop = Inr et"
  by (simp add: calculate_et_def Let_def)

lemma calculate_et_nonneg: "calculate_et temp humidity wind gs crop = Inr et \<Longrightarrow> 0 \<le> et"
  by (auto simp: calculate_et_def Let_def split: if_splits)

lemma calculate_et_wind: "calculate_et temp humidity wind gs crop = Inr et \<Longrightarrow> 0 \<le> wind"
  by (auto simp: calculate_et_def Let_def split: if_splits)

lemma evapotranspiration_of_readings_Inr_iff:
  "evapotranspiration_of_readings t h w gs crop = Inr et \<longleftrightarrow>
     \<not> float_overflow t \<and> \<not> float_overflow (h / 10) \<and> \<not> float_overflow w
     \<and> calculate_et t h w gs crop = Inr et"
  by (simp add: evapotranspiration_of_readings_def)

lemma IrrigationAdvice_value_inj:
  "(IrrigationAdvice_value d = IrrigationAdvice_value d') = (d = d')"
  by (cases d; cases d') simp_all

lemma analyze_None:
  "analyze decision_log now soil_data weather_data None growth_stage field_capacity = Inl AttributeError"
  by (simp add: analyze_def lookup_crop_def and_then_def)

lemma analyze_InrI:
  assumes c: "lookup_crop crop_type = Inr crop"
    and a: "collect_alerts (dict_get soil_data ''soil_moisture'' 50)
              (dict_get weather_data ''rain_probability'' 0) (dict_get weather_data ''rain_amount_mm'' 0)
              (dict_get soil_data ''nitrogen'' 100) (dict_get soil_data ''phosphorus'' 40)
              (dict_get soil_data ''potassium'' 150) (dict_get soil_data ''ph'' 6.5)
              (dict_get soil_data ''temperature'' 22) crop = Inr st"
    and e: "evapotranspiration_of_readings (dict_get weather_data ''temperature'' 25)
              (dict_get weather_data ''humidity'' 60) (dict_get weather_data ''wind_speed'' 5)
              growth_stage crop = Inr et"
    and m: "moisture = dict_get soil_data ''soil_moisture'' 50"
    and d: "d = make_decision moisture (analyze_moisture moisture crop growth_stage)
               (analyze_weather weather_data) (dict_get weather_data ''rain_probability'' 0) crop []"
    and f: "d = IRRIGATE \<longrightarrow> \<not> float_overflow field_capacity"
  shows "\<exists>r. analyze decision_log now soil_data weather_data crop_type growth_stage field_capacity
           = Inr (r, decision_log @ [r])
     \<and> r_decision r = IrrigationAdvice_value d
     \<and> soil_moisture_status (an_soil (r_analysis r)) = analyze_moisture moisture crop growth_stage
     \<and> weather_status_r (an_weather (r_analysis r)) = analyze_weather weather_data
     \<and> irrigation_amount_mm (r_recommendations r) =
          (if d = IRRIGATE then ((moisture_optimal_max crop - moisture) / 100) * field_capacity else 0)
     \<and> irrigation_duration_minutes (r_recommendations r) =
          (if d = IRRIGATE then (irrigation_amount_mm (r_recommendations r) / 10) * 60 else 0)
     \<and> daily_et_mm (an_evapotranspiration (r_analysis r)) = et
     \<and> water_loss_rate (an_evapotranspiration (r_analysis r)) = water_loss_rate_of et"
proof -
  have s: "AlertType_value SENSOR_MALFUNCTION \<notin> set (fst st)"
    using a by (rule collect_alerts_no_malfunction)
  show ?thesis
    unfolding m d analyze_def Let_def and_then_Inr [OF c] and_then_Inr [OF a] and_then_Inr [OF e]
      case_prod_beta make_decision_alerts [OF s]
    using f [unfolded d m]
    by (simp add: irrigation_recommendation_def and_then_def Let_def calculate_duration_def)
qed

lemma irrigation_recommendation_InrD:
  "irrigation_recommendation d crop m fc rs = Inr y \<Longrightarrow> d = IRRIGATE \<longrightarrow> \<not> float_overflow fc"
  by (auto simp: irrigation_recommendation_def Let_def split: if_splits)

lemma analyze_Inr_parts:
  assumes "analyze decision_log now soil_data weather_data crop_type growth_stage field_capacity = Inr (r, l)"
  shows "\<exists>crop st et. lookup_crop crop_type = Inr crop
     \<and> collect_alerts (dict_get soil_data ''soil_moisture'' 50)
              (dict_get weather_data ''rain_probability'' 0) (dict_get weather_data ''rain_amount_mm'' 0)
              (dict_get soil_data ''nitrogen'' 100) (dict_get soil_data ''phosphorus'' 40)
              (dict_get soil_data ''potassium'' 150) (dict_get soil_data ''ph'' 6.5)
              (dict_get soil_data ''temperature'' 22) crop = Inr st
     \<and> evapotranspiration_of_readings (dict_get weather_data ''temperature'' 25)
              (dict_get weather_data ''humidity'' 60) (dict_get weather_data ''wind_speed'' 5)
              growth_stage crop = Inr et
     \<and> (make_decision (dict_get soil_data ''soil_moisture'' 50)
           (analyze_moisture (dict_get soil_data ''soil_moisture'' 50) crop growth_stage)
           (analyze_weather weather_data) (dict_get weather_data ''rain_probability'' 0) crop (fst st)
          = IRRIGATE \<longrightarrow> \<not> float_overflow field_capacity)"
  using assms
  apply (simp only: analyze_def and_then_Inr_iff Let_def case_prod_beta)
  apply (elim exE conjE)
  apply (intro exI conjI; assumption?)
  apply (erule irrigation_recommendation_InrD)
  done


lemma analyze_InrD:
  assumes "analyze decision_log now soil_data weather_data crop_type growth_stage field_capacity = Inr (r, l)"
  obtains crop st where "lookup_crop crop_type = Inr crop"
    and "collect_alerts (dict_get soil_data ''soil_moisture'' 50)
           (dict_get weather_data ''rain_probability'' 0) (dict_get weather_data ''rain_amount_mm'' 0)
           (dict_get soil_data ''nitrogen'' 100) (dict_get soil_data ''phosphorus'' 40)
           (dict_get soil_data ''potassium'' 150) (dict_get soil_data ''ph'' 6.5)
           (dict_get soil_data ''temperature'' 22) crop = Inr st"
    and "evapotranspiration_of_readings (dict_get weather_data ''temperature'' 25)
           (dict_get weather_data ''humidity'' 60) (dict_get weather_data ''wind_speed'' 5)
           growth_stage crop = Inr (daily_et_mm (an_evapotranspiration (r_analysis r)))"
    and "l = decision_log @ [r]"
    and "r_decision r = IrrigationAdvice_value
           (make_decision (dict_get soil_data ''soil_moisture'' 50)
              (analyze_moisture (dict_get soil_data ''soil_moisture'' 50) crop growth_stage)
              (analyze_weather weather_data) (dict_get weather_data ''rain_probability'' 0) crop [])"
    and "soil_moisture_status (an_soil (r_analysis r)) =
           analyze_moisture (dict_get soil_data ''soil_moisture'' 50) crop growth_stage"
    and "irrigation_amount_mm (r_recommendations r) =
          (if r_decision r = IrrigationAdvice_value IRRIGATE
           then ((moisture_optimal_max crop - dict_get soil_data ''soil_moisture'' 50) / 100) * field_capacity
           else 0)"
    and "irrigation_duration_minutes (r_recommendations r) =
          (if r_decision r = IrrigationAdvice_value IRRIGATE
           then (irrigation_amount_mm (r_recommendations r) / 10) * 60 else 0)"
    and "water_loss_rate (an_evapotranspiration (r_analysis r)) =
          water_loss_rate_of (daily_et_mm (an_evapotranspiration (r_analysis r)))"
    and "r_decision r = IrrigationAdvice_value IRRIGATE \<longrightarrow> \<not> float_overflow field_capacity"
proof -
  let ?m = "dict_get soil_data ''soil_moisture'' 50"
  let ?rp = "dict_get weather_data ''rain_probability'' 0"
  from analyze_Inr_parts [OF assms] obtain crop st et where
    c: "lookup_crop crop_type = Inr crop"
    and a: "collect_alerts ?m ?rp (dict_get weather_data ''rain_amount_mm'' 0)
           (dict_get soil_data ''nitrogen'' 100) (dict_get soil_data ''phosphorus'' 40)
           (dict_get soil_data ''potassium'' 150) (dict_get soil_data ''ph'' 6.5)
           (dict_get soil_data ''temperature'' 22) crop = Inr st"
    and e: "evapotranspiration_of_readings (dict_get weather_data ''temperature'' 25)
           (dict_get weather_data ''humidity'' 60) (dict_get weather_data ''wind_speed'' 5)
           growth_stage crop = Inr et"
    and f: "make_decision ?m (analyze_moisture ?m crop growth_stage) (analyze_weather weather_data)
              ?rp crop (fst st) = IRRIGATE \<longrightarrow> \<not> float_overflow field_capacity"
    by blast
  let ?d = "make_decision ?m (analyze_moisture ?m crop growth_stage) (analyze_weather weather_data)
              ?rp crop []"
  have f': "?d = IRRIGATE \<longrightarrow> \<not> float_overflow field_capacity"
    using f make_decision_alerts [OF collect_alerts_no_malfunction [OF a]] by simp
  from analyze_InrI [OF c a e refl refl f', of decision_log now]
  obtain r' where r': "analyze decision_log now soil_data weather_data crop_type growth_stage
        field_capacity = Inr (r', decision_log @ [r'])"
    and g: "r_decision r' = IrrigationAdvice_value ?d"
      "soil_moisture_status (an_soil (r_analysis r')) = analyze_moisture ?m crop growth_stage"
      "irrigation_amount_mm (r_recommendations r') =
          (if ?d = IRRIGATE then ((moisture_optimal_max crop - ?m) / 100) * field_capacity else 0)"
      "irrigation_duration_minutes (r_recommendations r') =
          (if ?d = IRRIGATE then (irrigation_amount_mm (r_recommendations r') / 10) * 60 else 0)"
      "daily_et_mm (an_evapotranspiration (r_analysis r')) = et"
      "water_loss_rate (an_evapotranspiration (r_analysis r')) = water_loss_rate_of et"
    by blast
  from r' assms have eq: "r' = r" "l = decision_log @ [r]" by simp_all
  have i: "(r_decision r = IrrigationAdvice_value IRRIGATE) = (?d = IRRIGATE)"
    using g(1) unfolding eq by (simp only: IrrigationAdvice_value_inj)
  show thesis
  proof (rule that [OF c a])
    show "evapotranspiration_of_readings (dict_get weather_data ''temperature'' 25)
           (dict_get weather_data ''humidity'' 60) (dict_get weather_data ''wind_speed'' 5)
           growth_stage crop = Inr (daily_et_mm (an_evapotranspiration (r_analysis r)))"
      using e g(5) unfolding eq by simp
    show "l = decision_log @ [r]" by (rule eq(2))
    show "r_decision r = IrrigationAdvice_value ?d" using g(1) unfolding eq .
    show "soil_moisture_status (an_soil (r_analysis r)) = analyze_moisture ?m crop growth_stage"
      using g(2) unfolding eq .
    show "irrigation_amount_mm (r_recommendations r) =
          (if r_decision r = IrrigationAdvice_value IRRIGATE
           then ((moisture_optimal_max crop - ?m) / 100) * field_capacity else 0)"
      using g(3) unfolding eq i .
    show "irrigation_duration_minutes (r_recommendations r) =
          (if r_decision r = IrrigationAdvice_value IRRIGATE
           then (irrigation_amount_mm (r_recommendations r) / 10) * 60 else 0)"
      using g(4) unfolding eq i .
    show "water_loss_rate (an_evapotranspiration (r_analysis r)) =
          water_loss_rate_of (daily_et_mm (an_evapotranspiration (r_analysis r)))"
      using g(5,6) unfolding eq by simp
    show "r_decision r = IrrigationAdvice_value IRRIGATE \<longrightarrow> \<not> float_overflow field_capacity"
      unfolding i by (rule f')
  qed
qed

lemma collect_alerts_in_range:
  assumes "readings_in_float_range soil_data weather_data"
  shows "\<exists>st. collect_alerts (dict_get soil_data ''soil_moisture'' 50)
           (dict_get weather_data ''rain_probability'' 0) (dict_get weather_data ''rain_amount_mm'' 0)
           (dict_get soil_data ''nitrogen'' 100) (dict_get soil_data ''phosphorus'' 40)
           (dict_get soil_data ''potassium'' 150) (dict_get soil_data ''ph'' 6.5)
           (dict_get soil_data ''temperature'' 22) crop = Inr st"
proof -
  have s: "\<forall>v \<in> ran soil_data. \<not> float_overflow v" and w: "\<forall>v \<in> ran weather_data. \<not> float_overflow v"
    using assms by (simp_all add: readings_in_float_range_def)
  have "\<not> float_overflow (dict_get soil_data ''soil_moisture'' 50)"
    "\<not> float_overflow (dict_get weather_data ''rain_amount_mm'' 0)"
    "\<not> float_overflow (dict_get soil_data ''nitrogen'' 100)"
    "\<not> float_overflow (dict_get soil_data ''phosphorus'' 40)"
    "\<not> float_overflow (dict_get soil_data ''potassium'' 150)"
    "\<not> float_overflow (dict_get soil_data ''ph'' 6.5)"
    "\<not> float_overflow (dict_get soil_data ''temperature'' 22)"
    by (rule dict_get_in_range [OF s] dict_get_in_range [OF w], rule float_overflow_small, simp)+
  then show ?thesis
    unfolding collect_alerts_returns_iff by blast
qed

lemma evapotranspiration_in_range:
  assumes "readings_in_float_range soil_data weather_data"
    and "0 \<le> dict_get weather_data ''wind_speed'' 5"
  shows "\<exists>et. evapotranspiration_of_readings (dict_get weather_data ''temperature'' 25)
           (dict_get weather_data ''humidity'' 60) (dict_get weather_data ''wind_speed'' 5)
           growth_stage crop = Inr et"
proof -
  have w: "\<forall>v \<in> ran weather_data. \<not> float_overflow v"
    using assms(1) by (simp add: readings_in_float_range_def)
  have r: "\<not> float_overflow (dict_get weather_data ''temperature'' 25)"
    "\<not> float_overflow (dict_get weather_data ''humidity'' 60)"
    "\<not> float_overflow (dict_get weather_data ''wind_speed'' 5)"
    by (rule dict_get_in_range [OF w], rule float_overflow_small, simp)+
  from calculate_et_Inr [OF assms(2)] obtain et where
    "calculate_et (dict_get weather_data ''temperature'' 25) (dict_get weather_data ''humidity'' 60)
       (dict_get weather_data ''wind_speed'' 5) growth_stage crop = Inr et" ..
  with r float_overflow_div10 [OF r(2)] show ?thesis
    unfolding evapotranspiration_of_readings_Inr_iff by blast
qed

lemma analyze_returns_in_range:
  assumes c: "lookup_crop crop_type = Inr crop"
    and rg: "readings_in_float_range soil_data weather_data"
    and w: "0 \<le> dict_get weather_data ''wind_speed'' 5"
    and m: "moisture = dict_get soil_data ''soil_moisture'' 50"
    and d: "d = make_decision moisture (analyze_moisture moisture crop growth_stage)
               (analyze_weather weather_data) (dict_get weather_data ''rain_probability'' 0) crop []"
    and f: "d = IRRIGATE \<longrightarrow> \<not> float_overflow field_capacity"
  shows "\<exists>r. analyze decision_log now soil_data weather_data crop_type growth_stage field_capacity
           = Inr (r, decision_log @ [r])
     \<and> r_decision r = IrrigationAdvice_value d
     \<and> soil_moisture_status (an_soil (r_analysis r)) = analyze_moisture moisture crop growth_stage
     \<and> weather_status_r (an_weather (r_analysis r)) = analyze_weather weather_data
     \<and> irrigation_amount_mm (r_recommendations r) =
          (if d = IRRIGATE then ((moisture_optimal_max crop - moisture) / 100) * field_capacity else 0)
     \<and> irrigation_duration_minutes (r_recommendations r) =
          (if d = IRRIGATE then (irrigation_amount_mm (r_recommendations r) / 10) * 60 else 0)
     \<and> calculate_et (dict_get weather_data ''temperature'' 25) (dict_get weather_data ''humidity'' 60)
          (dict_get weather_data ''wind_speed'' 5) growth_stage crop
         = Inr (daily_et_mm (an_evapotranspiration (r_analysis r)))
     \<and> water_loss_rate (an_evapotranspiration (r_analysis r)) =
          water_loss_rate_of (daily_et_mm (an_evapotranspiration (r_analysis r)))"
proof -
  from collect_alerts_in_range [OF rg] obtain st where
    a: "collect_alerts (dict_get soil_data ''soil_moisture'' 50)
           (dict_get weather_data ''rain_probability'' 0) (dict_get weather_data ''rain_amount_mm'' 0)
           (dict_get soil_data ''nitrogen'' 100) (dict_get soil_data ''phosphorus'' 40)
           (dict_get soil_data ''potassium'' 150) (dict_get soil_data ''ph'' 6.5)
           (dict_get soil_data ''temperature'' 22) crop = Inr st" ..
  from evapotranspiration_in_range [OF rg w] obtain et where
    e: "evapotranspiration_of_readings (dict_get weather_data ''temperature'' 25)
           (dict_get weather_data ''humidity'' 60) (dict_get weather_data ''wind_speed'' 5)
           growth_stage crop = Inr et" ..
  from e have ce: "calculate_et (dict_get weather_data ''temperature'' 25)
       (dict_get weather_data ''humidity'' 60) (dict_get weather_data ''wind_speed'' 5)
       growth_stage crop = Inr et"
    unfolding evapotranspiration_of_readings_Inr_iff by blast
  from analyze_InrI [OF c a e m d f, of decision_log now] ce
  show ?thesis by auto
qed

lemma readings_in_float_range_small:
  "\<forall>v \<in> ran soil_data \<union> ran weather_data. \<bar>v\<bar> \<le> 1000 \<Longrightarrow> readings_in_float_range soil_data weather_data"
  by (auto simp: readings_in_float_range_def float_overflow_small)

lemma lookup_crop_tomato: "lookup_crop (Some ''tomato'') = Inr tomato_profile"
  by (simp add: lookup_crop_def lower_def lower_char_def ascii_uppercase_def ascii_lowercase_def
        CROP_PROFILES_def dict_get_def)

lemma lookup_crop_maize: "lookup_crop (Some ''maize'') = Inr maize_profile"
  by (simp add: lookup_crop_def lower_def lower_char_def ascii_uppercase_def ascii_lowercase_def
        CROP_PROFILES_def dict_get_def)




lemma water_loss_rate_of_band:
  "water_loss_rate_of et = (if et < 3 then ''low'' else if et \<le> 7 then ''moderate'' else ''high'')"
  by (simp add: water_loss_rate_of_def)



lemma analyze_et_raises:
  assumes c: "lookup_crop crop_type = Inr crop"
    and a: "collect_alerts (dict_get soil_data ''soil_moisture'' 50)
              (dict_get weather_data ''rain_probability'' 0) (dict_get weather_data ''rain_amount_mm'' 0)
              (dict_get soil_data ''nitrogen'' 100) (dict_get soil_data ''phosphorus'' 40)
              (dict_get soil_data ''potassium'' 150) (dict_get soil_data ''ph'' 6.5)
              (dict_get soil_data ''temperature'' 22) crop = Inr st"
    and e: "evapotranspiration_of_readings (dict_get weather_data ''temperature'' 25)
              (dict_get weather_data ''humidity'' 60) (dict_get weather_data ''wind_speed'' 5)
              growth_stage crop = Inl err"
  shows "analyze decision_log now soil_data weather_data crop_type growth_stage field_capacity = Inl err"
  unfolding analyze_def Let_def and_then_Inr [OF c] and_then_Inr [OF a] case_prod_beta
    and_then_Inl [OF e] ..

subsection \<open>The decision policy\<close>

text \<open>
  C1. The decision policy \<^verbatim>\<open>_make_decision\<close> is a function of the moisture
  classification, the weather classification, the rain probability and the alert list
  alone, defined on all of them, and equal to the ordered rule list of the specification
  read first match first: ALERT for a critically low or critically high moisture
  classification, else ALERT when SENSOR_MALFUNCTION is among the alerts, else HOLD for
  heavy rain expected or rain likely, else HOLD for an optimal or high classification,
  else HOLD for a rain probability above 60, else IRRIGATE for a low classification with
  a rain probability below 30, else HOLD.
\<close>

theorem make_decision_is_ordered_rule_list:
  "make_decision moisture ms ws rp crop alerts = policy_spec ms ws rp alerts
   \<and> make_decision moisture ms ws rp crop alerts =
       (if ms = ''CRITICALLY_LOW'' \<or> ms = ''CRITICALLY_HIGH'' then ALERT
        else if ''SENSOR_MALFUNCTION'' \<in> set alerts then ALERT
        else if ws = ''HEAVY_RAIN_EXPECTED'' \<or> ws = ''RAIN_LIKELY'' then HOLD
        else if ms = ''OPTIMAL'' \<or> ms = ''HIGH'' then HOLD
        else if rp > 60 then HOLD
        else if ms = ''LOW'' \<and> rp < 30 then IRRIGATE
        else HOLD)"
  by (simp add: make_decision_def policy_spec_def policy_rules_def)

subsection \<open>The moisture classifier\<close>



text \<open>
  C5. For every moisture value strictly below the critical minimum of the crop, whatever
  the growth stage, the weather classification, the rain probability and the alerts
  collected from the other readings, the classifier returns CRITICALLY_LOW and the
  decision policy returns ALERT; and every record that \<^verbatim>\<open>analyze\<close> returns for such a
  moisture reading carries that classification and the decision ALERT, whatever the
  weather, nutrient, pH and temperature readings are.
\<close>

theorem critically_low_gives_alert:
  assumes "m < moisture_critical_min crop"
  shows "analyze_moisture m crop gs = ''CRITICALLY_LOW''
         \<and> make_decision m (analyze_moisture m crop gs) ws rp crop alerts = ALERT
         \<and> (analyze decision_log now soil_data weather_data crop_type gs field_capacity = Inr (r, l)
              \<and> lookup_crop crop_type = Inr crop \<and> dict_get soil_data ''soil_moisture'' 50 = m \<longrightarrow>
              soil_moisture_status (an_soil (r_analysis r)) = ''CRITICALLY_LOW''
              \<and> r_decision r = IrrigationAdvice_value ALERT)"
proof (intro conjI impI)
  show low: "analyze_moisture m crop gs = ''CRITICALLY_LOW''"
    using assms by (rule analyze_moisture_critically_low)
  show "make_decision m (analyze_moisture m crop gs) ws rp crop alerts = ALERT"
    unfolding low by (rule make_decision_critically_low)
  assume a: "analyze decision_log now soil_data weather_data crop_type gs field_capacity = Inr (r, l)
      \<and> lookup_crop crop_type = Inr crop \<and> dict_get soil_data ''soil_moisture'' 50 = m"
  then have a1: "analyze decision_log now soil_data weather_data crop_type gs field_capacity = Inr (r, l)"
    and a2: "lookup_crop crop_type = Inr crop" and a3: "dict_get soil_data ''soil_moisture'' 50 = m"
    by simp_all
  from a1 show "soil_moisture_status (an_soil (r_analysis r)) = ''CRITICALLY_LOW''"
    by (rule analyze_InrD) (use a2 a3 low in simp)
  from a1 show "r_decision r = IrrigationAdvice_value ALERT"
    by (rule analyze_InrD) (use a2 a3 low in \<open>simp add: make_decision_critically_low\<close>)
qed

theorem critically_low_gives_alert_witness:
  "(25::real) < moisture_critical_min tomato_profile
   \<and> analyze_moisture 25 tomato_profile ''vegetative'' = ''CRITICALLY_LOW''
   \<and> make_decision 25 (analyze_moisture 25 tomato_profile ''vegetative'') ''NORMAL'' 0
        tomato_profile [] = ALERT
   \<and> (\<exists>r. analyze [] ''now'' [''soil_moisture'' \<mapsto> 25] Map.empty (Some ''tomato'') ''vegetative'' 100
              = Inr (r, [r])
          \<and> lookup_crop (Some ''tomato'') = Inr tomato_profile
          \<and> dict_get [''soil_moisture'' \<mapsto> 25] ''soil_moisture'' 50 = (25::real)
          \<and> soil_moisture_status (an_soil (r_analysis r)) = ''CRITICALLY_LOW''
          \<and> r_decision r = IrrigationAdvice_value ALERT)"
proof -
  let ?sd = "[''soil_moisture'' \<mapsto> (25::real)]"
  have h: "(25::real) < moisture_critical_min tomato_profile"
    by (simp add: tomato_profile_def)
  have w: "0 \<le> dict_get (Map.empty :: string \<rightharpoonup> real) ''wind_speed'' 5"
    by (simp add: dict_get_def)
  have rg: "readings_in_float_range ?sd Map.empty"
    by (rule readings_in_float_range_small) simp
  have g: "dict_get ?sd ''soil_moisture'' 50 = 25" by (simp add: dict_get_def)
  have f: "make_decision (dict_get ?sd ''soil_moisture'' 50)
      (analyze_moisture (dict_get ?sd ''soil_moisture'' 50) tomato_profile ''vegetative'')
      (analyze_weather Map.empty) (dict_get Map.empty ''rain_probability'' 0) tomato_profile [] = IRRIGATE
      \<longrightarrow> \<not> float_overflow 100"
    by (simp add: float_overflow_small)
  from analyze_returns_in_range [where growth_stage = "''vegetative''" and decision_log = "[]"
      and now = "''now''", OF lookup_crop_tomato rg w refl refl f]
  obtain r where r: "analyze [] ''now'' ?sd Map.empty (Some ''tomato'') ''vegetative'' 100 = Inr (r, [r])"
    by auto
  note t = critically_low_gives_alert [OF h, where gs = "''vegetative''" and ws = "''NORMAL''"
      and rp = 0 and alerts = "[]" and decision_log = "[]" and now = "''now''" and soil_data = ?sd
      and weather_data = Map.empty and crop_type = "Some ''tomato''" and field_capacity = 100
      and r = r and l = "[r]"]
  have c1: "analyze_moisture 25 tomato_profile ''vegetative'' = ''CRITICALLY_LOW''"
    by (rule t [THEN conjunct1])
  have c2: "make_decision 25 (analyze_moisture 25 tomato_profile ''vegetative'') ''NORMAL'' 0
        tomato_profile [] = ALERT"
    by (rule t [THEN conjunct2, THEN conjunct1])
  have c3: "soil_moisture_status (an_soil (r_analysis r)) = ''CRITICALLY_LOW''
          \<and> r_decision r = IrrigationAdvice_value ALERT"
    by (rule t [THEN conjunct2, THEN conjunct2, THEN mp, OF conjI [OF r conjI [OF lookup_crop_tomato g]]])
  from c3 have c4: "soil_moisture_status (an_soil (r_analysis r)) = ''CRITICALLY_LOW''"
    and c5: "r_decision r = IrrigationAdvice_value ALERT" by (rule conjunct1, rule conjunct2)
  have e: "\<exists>r. analyze [] ''now'' ?sd Map.empty (Some ''tomato'') ''vegetative'' 100 = Inr (r, [r])
          \<and> lookup_crop (Some ''tomato'') = Inr tomato_profile
          \<and> dict_get ?sd ''soil_moisture'' 50 = (25::real)
          \<and> soil_moisture_status (an_soil (r_analysis r)) = ''CRITICALLY_LOW''
          \<and> r_decision r = IrrigationAdvice_value ALERT"
    by (rule exI [of _ r]) (intro conjI r lookup_crop_tomato g c4 c5)
  show ?thesis by (intro conjI h c1 c2 e)
qed

text \<open>
  C3, as the specification states it, fails: a moisture value inside the stage-adjusted
  optimal band is classified CRITICALLY_LOW, and the policy answers ALERT, when it lies
  below the critical minimum, which the stage factor does not scale. Potato at stage
  planting (factor 0.5) has the band 32.5 to 42.5 and the critical minimum 45.
\<close>

theorem optimal_band_counterexample:
  "float_mul (moisture_optimal_min potato_profile) (stage_factor_of potato_profile ''planting'') \<le> 40
   \<and> 40 \<le> float_mul (moisture_optimal_max potato_profile) (stage_factor_of potato_profile ''planting'')
   \<and> stage_factor_of potato_profile ''planting'' = 0.5
   \<and> analyze_moisture 40 potato_profile ''planting'' = ''CRITICALLY_LOW''
   \<and> analyze_moisture 40 potato_profile ''planting'' \<noteq> ''OPTIMAL''
   \<and> make_decision 40 (analyze_moisture 40 potato_profile ''planting'') ''NORMAL'' 0 potato_profile [] = ALERT
   \<and> make_decision 40 (analyze_moisture 40 potato_profile ''planting'') ''NORMAL'' 0 potato_profile [] \<noteq> HOLD"
  by (simp add: potato_profile_def stage_factor_of_def dict_get_def analyze_moisture_def
        make_decision_def float_eval)

text \<open>
  C3, amended. For every moisture value m and growth stage with m not below the critical
  minimum and stage-adjusted optimal minimum \<open>\<le>\<close> m \<open>\<le>\<close> stage-adjusted optimal maximum,
  the two bounds being the float products the program computes, the classifier returns
  OPTIMAL, and the decision policy returns HOLD unless SENSOR_MALFUNCTION is among the
  alerts. No check of \<^verbatim>\<open>analyze\<close> produces that alert, so every record it returns for
  such a moisture reading has the decision HOLD.
\<close>

theorem optimal_band_gives_hold:
  assumes "moisture_critical_min crop \<le> m"
    and "float_mul (moisture_optimal_min crop) (stage_factor_of crop gs) \<le> m"
    and "m \<le> float_mul (moisture_optimal_max crop) (stage_factor_of crop gs)"
  shows "analyze_moisture m crop gs = ''OPTIMAL''
         \<and> (AlertType_value SENSOR_MALFUNCTION \<notin> set alerts \<longrightarrow>
              make_decision m (analyze_moisture m crop gs) ws rp crop alerts = HOLD)
         \<and> (analyze decision_log now soil_data weather_data crop_type gs field_capacity = Inr (r, l)
              \<and> lookup_crop crop_type = Inr crop \<and> dict_get soil_data ''soil_moisture'' 50 = m \<longrightarrow>
              soil_moisture_status (an_soil (r_analysis r)) = ''OPTIMAL''
              \<and> r_decision r = IrrigationAdvice_value HOLD)"
proof (intro conjI impI)
  show opt: "analyze_moisture m crop gs = ''OPTIMAL''"
    unfolding analyze_moisture_def Let_def stage_factor_of_eq using assms by simp
  have hold: "\<And>ws rp c. make_decision m ''OPTIMAL'' ws rp c [] = HOLD"
    by (simp add: make_decision_def)
  show "make_decision m (analyze_moisture m crop gs) ws rp crop alerts = HOLD"
    if "AlertType_value SENSOR_MALFUNCTION \<notin> set alerts"
    unfolding opt make_decision_alerts [OF that] by (rule hold)
  assume a: "analyze decision_log now soil_data weather_data crop_type gs field_capacity = Inr (r, l)
      \<and> lookup_crop crop_type = Inr crop \<and> dict_get soil_data ''soil_moisture'' 50 = m"
  then have a1: "analyze decision_log now soil_data weather_data crop_type gs field_capacity = Inr (r, l)"
    and a2: "lookup_crop crop_type = Inr crop" and a3: "dict_get soil_data ''soil_moisture'' 50 = m"
    by simp_all
  from a1 show "soil_moisture_status (an_soil (r_analysis r)) = ''OPTIMAL''"
    by (rule analyze_InrD) (use a2 a3 opt in simp)
  from a1 show "r_decision r = IrrigationAdvice_value HOLD"
    by (rule analyze_InrD) (use a2 a3 opt in \<open>simp add: hold\<close>)
qed

theorem optimal_band_gives_hold_witness:
  "moisture_critical_min tomato_profile \<le> 70
   \<and> float_mul (moisture_optimal_min tomato_profile) (stage_factor_of tomato_profile ''vegetative'') \<le> 70
   \<and> 70 \<le> float_mul (moisture_optimal_max tomato_profile) (stage_factor_of tomato_profile ''vegetative'')
   \<and> AlertType_value SENSOR_MALFUNCTION \<notin> set [AlertType_value PH_IMBALANCE]
   \<and> analyze_moisture 70 tomato_profile ''vegetative'' = ''OPTIMAL''
   \<and> make_decision 70 (analyze_moisture 70 tomato_profile ''vegetative'') ''NORMAL'' 10 tomato_profile
        [AlertType_value PH_IMBALANCE] = HOLD
   \<and> (\<exists>r. analyze [] ''now'' [''soil_moisture'' \<mapsto> 70] Map.empty (Some ''tomato'') ''vegetative'' 100
              = Inr (r, [r])
          \<and> lookup_crop (Some ''tomato'') = Inr tomato_profile
          \<and> dict_get [''soil_moisture'' \<mapsto> 70] ''soil_moisture'' 50 = (70::real)
          \<and> soil_moisture_status (an_soil (r_analysis r)) = ''OPTIMAL''
          \<and> r_decision r = IrrigationAdvice_value HOLD)"
proof -
  let ?sd = "[''soil_moisture'' \<mapsto> (70::real)]"
  have a: "moisture_critical_min tomato_profile \<le> 70"
    and b: "float_mul (moisture_optimal_min tomato_profile) (stage_factor_of tomato_profile ''vegetative'') \<le> 70"
    and c: "70 \<le> float_mul (moisture_optimal_max tomato_profile) (stage_factor_of tomato_profile ''vegetative'')"
    by (simp_all add: tomato_profile_def stage_factor_of_def float_eval)
  have d: "AlertType_value SENSOR_MALFUNCTION \<notin> set [AlertType_value PH_IMBALANCE]" by simp
  have w: "0 \<le> dict_get (Map.empty :: string \<rightharpoonup> real) ''wind_speed'' 5"
    by (simp add: dict_get_def)
  have rg: "readings_in_float_range ?sd Map.empty"
    by (rule readings_in_float_range_small) simp
  have g: "dict_get ?sd ''soil_moisture'' 50 = 70" by (simp add: dict_get_def)
  have f: "make_decision (dict_get ?sd ''soil_moisture'' 50)
      (analyze_moisture (dict_get ?sd ''soil_moisture'' 50) tomato_profile ''vegetative'')
      (analyze_weather Map.empty) (dict_get Map.empty ''rain_probability'' 0) tomato_profile [] = IRRIGATE
      \<longrightarrow> \<not> float_overflow 100"
    by (simp add: float_overflow_small)
  from analyze_returns_in_range [where growth_stage = "''vegetative''" and decision_log = "[]"
      and now = "''now''", OF lookup_crop_tomato rg w refl refl f]
  obtain r where r: "analyze [] ''now'' ?sd Map.empty (Some ''tomato'') ''vegetative'' 100 = Inr (r, [r])"
    by auto
  note t = optimal_band_gives_hold [OF a b c, where alerts = "[AlertType_value PH_IMBALANCE]"
      and ws = "''NORMAL''" and rp = 10 and decision_log = "[]" and now = "''now''" and soil_data = ?sd
      and weather_data = Map.empty and crop_type = "Some ''tomato''" and field_capacity = 100
      and r = r and l = "[r]"]
  have c1: "analyze_moisture 70 tomato_profile ''vegetative'' = ''OPTIMAL''"
    by (rule t [THEN conjunct1])
  have c2: "make_decision 70 (analyze_moisture 70 tomato_profile ''vegetative'') ''NORMAL'' 10
        tomato_profile [AlertType_value PH_IMBALANCE] = HOLD"
    by (rule t [THEN conjunct2, THEN conjunct1, THEN mp, OF d])
  have c3: "soil_moisture_status (an_soil (r_analysis r)) = ''OPTIMAL''
          \<and> r_decision r = IrrigationAdvice_value HOLD"
    by (rule t [THEN conjunct2, THEN conjunct2, THEN mp, OF conjI [OF r conjI [OF lookup_crop_tomato g]]])
  from c3 have c4: "soil_moisture_status (an_soil (r_analysis r)) = ''OPTIMAL''"
    and c5: "r_decision r = IrrigationAdvice_value HOLD" by (rule conjunct1, rule conjunct2)
  have e: "\<exists>r. analyze [] ''now'' ?sd Map.empty (Some ''tomato'') ''vegetative'' 100 = Inr (r, [r])
          \<and> lookup_crop (Some ''tomato'') = Inr tomato_profile
          \<and> dict_get ?sd ''soil_moisture'' 50 = (70::real)
          \<and> soil_moisture_status (an_soil (r_analysis r)) = ''OPTIMAL''
          \<and> r_decision r = IrrigationAdvice_value HOLD"
    by (rule exI [of _ r]) (intro conjI r lookup_crop_tomato g c4 c5)
  show ?thesis by (intro conjI a b c d c1 c2 e)
qed

subsection \<open>Crop profile lookup\<close>

lemma eq_ToMaTo: "equal_ignoring_case ''ToMaTo'' ''tomato''"
  by (simp add: equal_ignoring_case_def same_letter_def ascii_uppercase_def ascii_lowercase_def)

lemma dom_CROP_PROFILES:
  "dom CROP_PROFILES = {''tomato'', ''maize'', ''potato'', ''lettuce'', ''default''}"
  by (auto simp: CROP_PROFILES_def split: if_splits)

lemma wheat_unmatched: "\<forall>k \<in> dom CROP_PROFILES. \<not> equal_ignoring_case ''Wheat'' k"
  by (simp add: dom_CROP_PROFILES equal_ignoring_case_def same_letter_def
        ascii_uppercase_def ascii_lowercase_def)

text \<open>
  C4, as the specification states it, fails for \<^verbatim>\<open>None\<close>: line 127 calls
  \<^verbatim>\<open>crop_type.lower()\<close>, and \<^verbatim>\<open>None\<close> has no such method, so the lookup raises
  \<^verbatim>\<open>AttributeError\<close> and returns no profile.
\<close>

theorem lookup_crop_None_raises:
  "lookup_crop None = Inl AttributeError \<and> lookup_crop None \<noteq> Inr default_profile"
  by (simp add: lookup_crop_def)

text \<open>
  C4, amended. For every string the lookup returns a profile and raises nothing; strings
  that are equal ignoring case get the same profile; a string equal, ignoring case, to a
  key of the table gets the profile stored under that key; a string that matches no key,
  the empty string among them, gets the default profile.
\<close>

theorem lookup_crop_total_on_strings:
  "(\<exists>p. lookup_crop (Some s) = Inr p)
   \<and> (equal_ignoring_case s t \<longrightarrow> lookup_crop (Some s) = lookup_crop (Some t))
   \<and> (CROP_PROFILES k = Some p \<and> equal_ignoring_case s k \<longrightarrow> lookup_crop (Some s) = Inr p)
   \<and> ((\<forall>k \<in> dom CROP_PROFILES. \<not> equal_ignoring_case s k) \<longrightarrow>
        lookup_crop (Some s) = Inr default_profile)
   \<and> lookup_crop (Some []) = Inr default_profile"
proof (intro conjI impI)
  show "\<exists>p. lookup_crop (Some s) = Inr p" by (simp add: lookup_crop_def)
next
  assume "equal_ignoring_case s t"
  then show "lookup_crop (Some s) = lookup_crop (Some t)"
    by (simp add: lookup_crop_def equal_ignoring_case_lower)
next
  assume h: "CROP_PROFILES k = Some p \<and> equal_ignoring_case s k"
  then have "lower s = k"
    using equal_ignoring_case_lower [of s k] CROP_PROFILES_key_lower [of k p] by simp
  with h show "lookup_crop (Some s) = Inr p" by (simp add: lookup_crop_def dict_get_def)
next
  assume h: "\<forall>k \<in> dom CROP_PROFILES. \<not> equal_ignoring_case s k"
  have "lower s \<notin> dom CROP_PROFILES"
    using h equal_ignoring_case_lower_self [of s] by blast
  then show "lookup_crop (Some s) = Inr default_profile"
    by (simp add: lookup_crop_def dict_get_def domIff)
next
  show "lookup_crop (Some []) = Inr default_profile"
    by (simp add: lookup_crop_def dict_get_def lower_def CROP_PROFILES_def)
qed

theorem lookup_crop_total_on_strings_witness:
  "CROP_PROFILES ''tomato'' = Some tomato_profile \<and> equal_ignoring_case ''ToMaTo'' ''tomato''
   \<and> lookup_crop (Some ''ToMaTo'') = Inr tomato_profile
   \<and> lookup_crop (Some ''ToMaTo'') = lookup_crop (Some ''tomato'')
   \<and> dom CROP_PROFILES = {''tomato'', ''maize'', ''potato'', ''lettuce'', ''default''}
   \<and> \<not> equal_ignoring_case ''Wheat'' ''maize''
   \<and> lookup_crop (Some ''Wheat'') = Inr default_profile"
proof -
  note T = lookup_crop_total_on_strings [of "''ToMaTo''" "''tomato''" "''tomato''" tomato_profile]
  note W = lookup_crop_total_on_strings [of "''Wheat''" "''Wheat''" "''tomato''" tomato_profile]
  have a: "CROP_PROFILES ''tomato'' = Some tomato_profile" by (simp add: CROP_PROFILES_def)
  have b: "equal_ignoring_case ''ToMaTo'' ''tomato''" by (rule eq_ToMaTo)
  have c: "lookup_crop (Some ''ToMaTo'') = Inr tomato_profile"
    by (rule T [THEN conjunct2, THEN conjunct2, THEN conjunct1, THEN mp, OF conjI [OF a b]])
  have d: "lookup_crop (Some ''ToMaTo'') = lookup_crop (Some ''tomato'')"
    by (rule T [THEN conjunct2, THEN conjunct1, THEN mp, OF b])
  have e: "dom CROP_PROFILES = {''tomato'', ''maize'', ''potato'', ''lettuce'', ''default''}"
    by (rule dom_CROP_PROFILES)
  have f: "\<not> equal_ignoring_case ''Wheat'' ''maize''"
    by (simp add: equal_ignoring_case_def same_letter_def ascii_uppercase_def ascii_lowercase_def)
  have g: "lookup_crop (Some ''Wheat'') = Inr default_profile"
    by (rule W [THEN conjunct2, THEN conjunct2, THEN conjunct2, THEN conjunct1, THEN mp,
          OF wheat_unmatched])
  show ?thesis by (intro conjI; fact)
qed

subsection \<open>Irrigation amount and rain override\<close>

text \<open>
  C6. In the record that \<^verbatim>\<open>analyze\<close> returns, the irrigation amount and duration are 0
  whenever the decision is not IRRIGATE; when it is IRRIGATE, the amount is
  ((optimal maximum of the crop - moisture) / 100) times the field capacity and the duration
  is (amount / 10) times 60. For soil moisture 50, crop tomato, stage vegetative, rain
  probability 20 and field capacity 100 (the other readings as they come within the range
  of doubles, the wind speed not negative) the classification is LOW, the decision
  IRRIGATE, the amount 30 and the duration 180 minutes.
\<close>

theorem irrigation_amount_and_duration:
  "(analyze decision_log now soil_data weather_data crop_type growth_stage field_capacity = Inr (r, l) \<longrightarrow>
      (r_decision r \<noteq> IrrigationAdvice_value IRRIGATE \<longrightarrow>
         irrigation_amount_mm (r_recommendations r) = 0
         \<and> irrigation_duration_minutes (r_recommendations r) = 0)
      \<and> (r_decision r = IrrigationAdvice_value IRRIGATE \<longrightarrow>
           (\<exists>crop. lookup_crop crop_type = Inr crop
              \<and> irrigation_amount_mm (r_recommendations r) =
                  ((moisture_optimal_max crop - dict_get soil_data ''soil_moisture'' 50) / 100)
                    * field_capacity
              \<and> irrigation_duration_minutes (r_recommendations r) =
                  (irrigation_amount_mm (r_recommendations r) / 10) * 60)))
   \<and> (soil_data' ''soil_moisture'' = Some 50 \<and> weather_data' ''rain_probability'' = Some 20
        \<and> 0 \<le> dict_get weather_data' ''wind_speed'' 5
        \<and> readings_in_float_range soil_data' weather_data' \<longrightarrow>
        (\<exists>r'. analyze decision_log now soil_data' weather_data' (Some ''tomato'') ''vegetative'' 100
                = Inr (r', decision_log @ [r'])
           \<and> soil_moisture_status (an_soil (r_analysis r')) = ''LOW''
           \<and> r_decision r' = ''IRRIGATE''
           \<and> irrigation_amount_mm (r_recommendations r') = 30
           \<and> irrigation_duration_minutes (r_recommendations r') = 180))"
proof (intro conjI impI)
  assume a: "analyze decision_log now soil_data weather_data crop_type growth_stage field_capacity = Inr (r, l)"
  from a show "r_decision r \<noteq> IrrigationAdvice_value IRRIGATE \<Longrightarrow>
      irrigation_amount_mm (r_recommendations r) = 0"
    by (rule analyze_InrD) simp
  from a show "r_decision r \<noteq> IrrigationAdvice_value IRRIGATE \<Longrightarrow>
      irrigation_duration_minutes (r_recommendations r) = 0"
    by (rule analyze_InrD) simp
  from a show "r_decision r = IrrigationAdvice_value IRRIGATE \<Longrightarrow>
     \<exists>crop. lookup_crop crop_type = Inr crop
              \<and> irrigation_amount_mm (r_recommendations r) =
                  ((moisture_optimal_max crop - dict_get soil_data ''soil_moisture'' 50) / 100)
                    * field_capacity
              \<and> irrigation_duration_minutes (r_recommendations r) =
                  (irrigation_amount_mm (r_recommendations r) / 10) * 60"
    by (rule analyze_InrD) simp
next
  assume h: "soil_data' ''soil_moisture'' = Some 50 \<and> weather_data' ''rain_probability'' = Some 20
        \<and> 0 \<le> dict_get weather_data' ''wind_speed'' 5
        \<and> readings_in_float_range soil_data' weather_data'"
  have m: "dict_get soil_data' ''soil_moisture'' 50 = 50" and rp: "dict_get weather_data' ''rain_probability'' 0 = 20"
    using h by (simp_all add: dict_get_def)
  have ms: "analyze_moisture 50 tomato_profile ''vegetative'' = ''LOW''"
    by (simp add: analyze_moisture_def tomato_profile_def dict_get_def float_eval)
  have ws: "analyze_weather weather_data' \<notin> {''HEAVY_RAIN_EXPECTED'', ''RAIN_LIKELY''}"
    using rp by (simp add: analyze_weather_def Let_def)
  have d: "make_decision 50 ''LOW'' (analyze_weather weather_data') 20 tomato_profile [] = IRRIGATE"
    using ws by (simp add: make_decision_def)
  have om: "moisture_optimal_max tomato_profile = 80" by (simp add: tomato_profile_def)
  from h have w: "0 \<le> dict_get weather_data' ''wind_speed'' 5"
    and rg: "readings_in_float_range soil_data' weather_data'" by simp_all
  have f: "make_decision (dict_get soil_data' ''soil_moisture'' 50)
      (analyze_moisture (dict_get soil_data' ''soil_moisture'' 50) tomato_profile ''vegetative'')
      (analyze_weather weather_data') (dict_get weather_data' ''rain_probability'' 0) tomato_profile []
      = IRRIGATE \<longrightarrow> \<not> float_overflow 100"
    by (simp add: float_overflow_small)
  from analyze_returns_in_range [where decision_log = decision_log and now = now
      and growth_stage = "''vegetative''", OF lookup_crop_tomato rg w refl refl f]
  show "\<exists>r'. analyze decision_log now soil_data' weather_data' (Some ''tomato'') ''vegetative'' 100
                = Inr (r', decision_log @ [r'])
           \<and> soil_moisture_status (an_soil (r_analysis r')) = ''LOW''
           \<and> r_decision r' = ''IRRIGATE''
           \<and> irrigation_amount_mm (r_recommendations r') = 30
           \<and> irrigation_duration_minutes (r_recommendations r') = 180"
    unfolding m rp ms d om by auto
qed

theorem irrigation_amount_and_duration_witness:
  "\<exists>r. analyze [] ''now'' [''soil_moisture'' \<mapsto> 50] [''rain_probability'' \<mapsto> 20]
            (Some ''tomato'') ''vegetative'' 100 = Inr (r, [r])
       \<and> soil_moisture_status (an_soil (r_analysis r)) = ''LOW''
       \<and> r_decision r = IrrigationAdvice_value IRRIGATE
       \<and> irrigation_amount_mm (r_recommendations r) = 30
       \<and> irrigation_duration_minutes (r_recommendations r) = 180
       \<and> (\<exists>crop. lookup_crop (Some ''tomato'') = Inr crop
             \<and> irrigation_amount_mm (r_recommendations r) =
                 ((moisture_optimal_max crop - dict_get [''soil_moisture'' \<mapsto> 50] ''soil_moisture'' 50) / 100) * 100
             \<and> irrigation_duration_minutes (r_recommendations r) =
                 (irrigation_amount_mm (r_recommendations r) / 10) * 60)"
proof -
  let ?sd = "[''soil_moisture'' \<mapsto> (50::real)]" and ?wd = "[''rain_probability'' \<mapsto> (20::real)]"
  have rg: "readings_in_float_range ?sd ?wd"
    by (rule readings_in_float_range_small) simp
  have h: "?sd ''soil_moisture'' = Some 50 \<and> ?wd ''rain_probability'' = Some 20
             \<and> 0 \<le> dict_get ?wd ''wind_speed'' 5 \<and> readings_in_float_range ?sd ?wd"
    using rg by (simp add: dict_get_def)
  from irrigation_amount_and_duration [where soil_data' = ?sd and weather_data' = ?wd
      and decision_log = "[]" and now = "''now''", THEN conjunct2, rule_format, OF h]
  obtain r where r: "analyze [] ''now'' ?sd ?wd (Some ''tomato'') ''vegetative'' 100 = Inr (r, [r])"
    and f: "soil_moisture_status (an_soil (r_analysis r)) = ''LOW''" "r_decision r = ''IRRIGATE''"
      "irrigation_amount_mm (r_recommendations r) = 30"
      "irrigation_duration_minutes (r_recommendations r) = 180"
    by auto
  have i: "r_decision r = IrrigationAdvice_value IRRIGATE" using f by simp
  from irrigation_amount_and_duration [where soil_data = ?sd and weather_data = ?wd
      and decision_log = "[]" and now = "''now''" and crop_type = "Some ''tomato''"
      and growth_stage = "''vegetative''" and field_capacity = 100 and r = r and l = "[r]",
      THEN conjunct1, rule_format, OF r, THEN conjunct2, rule_format, OF i]
  show ?thesis using r f i by blast
qed




subsection \<open>Evapotranspiration\<close>

text \<open>
  C8. For a wind speed that is not negative the daily evapotranspiration estimate is
  max(0, 0.0023 (airTemp + 17.8) (airTemp - humidity/10) sqrt(windSpeed) stageFactor 1.2),
  with the stage factor of the moisture classifier (1.0 for an unknown stage); whatever
  \<^verbatim>\<open>_calculate_et\<close> returns is at least 0, and its band is low below 3, moderate from 3
  to 7 and high above 7. The record that \<^verbatim>\<open>analyze\<close> returns carries that estimate and
  that band.
\<close>

theorem evapotranspiration_estimate:
  "(0 \<le> wind \<longrightarrow>
      calculate_et temp humidity wind growth_stage crop =
        Inr (max 0 (0.0023 * (temp + 17.8) * (temp - humidity / 10) * sqrt wind
                      * stage_factor_of crop growth_stage * 1.2)))
   \<and> (calculate_et temp humidity wind growth_stage crop = Inr et \<longrightarrow>
        0 \<le> et
        \<and> water_loss_rate_of et =
            (if et < 3 then ''low'' else if et \<le> 7 then ''moderate'' else ''high''))
   \<and> (analyze decision_log now soil_data weather_data crop_type growth_stage field_capacity = Inr (r, l)
        \<and> lookup_crop crop_type = Inr crop \<longrightarrow>
        calculate_et (dict_get weather_data ''temperature'' 25) (dict_get weather_data ''humidity'' 60)
          (dict_get weather_data ''wind_speed'' 5) growth_stage crop
          = Inr (daily_et_mm (an_evapotranspiration (r_analysis r)))
        \<and> water_loss_rate (an_evapotranspiration (r_analysis r)) =
            water_loss_rate_of (daily_et_mm (an_evapotranspiration (r_analysis r))))"
proof (intro conjI impI)
  assume "0 \<le> wind"
  then have "\<not> wind < 0" by simp
  then show "calculate_et temp humidity wind growth_stage crop =
        Inr (max 0 (0.0023 * (temp + 17.8) * (temp - humidity / 10) * sqrt wind
                      * stage_factor_of crop growth_stage * 1.2))"
    unfolding calculate_et_def Let_def stage_factor_of_eq by (simp only: if_False)
next
  assume "calculate_et temp humidity wind growth_stage crop = Inr et"
  then show "0 \<le> et" by (rule calculate_et_nonneg)
next
  show "water_loss_rate_of et =
            (if et < 3 then ''low'' else if et \<le> 7 then ''moderate'' else ''high'')"
    by (rule water_loss_rate_of_band)
next
  assume a: "analyze decision_log now soil_data weather_data crop_type growth_stage field_capacity = Inr (r, l)
        \<and> lookup_crop crop_type = Inr crop"
  then have a1: "analyze decision_log now soil_data weather_data crop_type growth_stage field_capacity = Inr (r, l)"
    and a2: "lookup_crop crop_type = Inr crop" by simp_all
  from a1 show "calculate_et (dict_get weather_data ''temperature'' 25) (dict_get weather_data ''humidity'' 60)
          (dict_get weather_data ''wind_speed'' 5) growth_stage crop
          = Inr (daily_et_mm (an_evapotranspiration (r_analysis r)))"
    by (rule analyze_InrD) (use a2 in \<open>simp add: evapotranspiration_of_readings_Inr_iff\<close>)
  from a1 show "water_loss_rate (an_evapotranspiration (r_analysis r)) =
            water_loss_rate_of (daily_et_mm (an_evapotranspiration (r_analysis r)))"
    by (rule analyze_InrD)
qed

theorem evapotranspiration_estimate_witness:
  "(0::real) \<le> 4
   \<and> calculate_et 25 60 4 ''vegetative'' tomato_profile =
        Inr (max 0 (0.0023 * (25 + 17.8) * (25 - 60 / 10) * sqrt 4
                      * stage_factor_of tomato_profile ''vegetative'' * 1.2))
   \<and> calculate_et 25 60 4 ''vegetative'' tomato_profile = Inr 4.488864
   \<and> (0::real) \<le> 4.488864
   \<and> water_loss_rate_of 4.488864 = ''moderate''
   \<and> (\<exists>r. analyze [] ''now'' Map.empty [''wind_speed'' \<mapsto> 4] (Some ''tomato'') ''vegetative'' 100
              = Inr (r, [r])
          \<and> daily_et_mm (an_evapotranspiration (r_analysis r)) = 4.488864
          \<and> water_loss_rate (an_evapotranspiration (r_analysis r)) = ''moderate'')"
proof -
  let ?wd = "[''wind_speed'' \<mapsto> (4::real)]"
  have w: "(0::real) \<le> 4" by simp
  have sf: "stage_factor_of tomato_profile ''vegetative'' = 1"
    by (simp add: stage_factor_of_def tomato_profile_def)
  have v: "max 0 (0.0023 * (25 + 17.8) * (25 - 60 / 10) * sqrt 4 * (1::real) * 1.2) = 4.488864"
    by simp
  note t = evapotranspiration_estimate [where wind = 4 and temp = 25 and humidity = 60
      and growth_stage = "''vegetative''" and crop = tomato_profile and et = "4.488864"
      and decision_log = "[]" and now = "''now''" and soil_data = Map.empty and weather_data = ?wd
      and crop_type = "Some ''tomato''" and field_capacity = 100]
  from t [THEN conjunct1, rule_format, OF w]
  have e: "calculate_et 25 60 4 ''vegetative'' tomato_profile =
        Inr (max 0 (0.0023 * (25 + 17.8) * (25 - 60 / 10) * sqrt 4
                      * stage_factor_of tomato_profile ''vegetative'' * 1.2))" .
  then have e': "calculate_et 25 60 4 ''vegetative'' tomato_profile = Inr 4.488864"
    unfolding sf v .
  from t [THEN conjunct2, THEN conjunct1, rule_format, OF e']
  have b: "(0::real) \<le> 4.488864 \<and> water_loss_rate_of 4.488864 = ''moderate''" by simp
  have w': "0 \<le> dict_get ?wd ''wind_speed'' 5" by (simp add: dict_get_def)
  have rg: "readings_in_float_range Map.empty ?wd"
    by (rule readings_in_float_range_small) simp
  have f: "make_decision (dict_get (Map.empty :: string \<rightharpoonup> real) ''soil_moisture'' 50)
     (analyze_moisture (dict_get (Map.empty :: string \<rightharpoonup> real) ''soil_moisture'' 50)
        tomato_profile ''vegetative'')
     (analyze_weather ?wd) (dict_get ?wd ''rain_probability'' 0) tomato_profile [] = IRRIGATE
     \<longrightarrow> \<not> float_overflow 100"
    by (simp add: float_overflow_small)
  from analyze_returns_in_range [where decision_log = "[]" and now = "''now''"
      and growth_stage = "''vegetative''", OF lookup_crop_tomato rg w' refl refl f]
  obtain r where r: "analyze [] ''now'' Map.empty ?wd (Some ''tomato'') ''vegetative'' 100 = Inr (r, [r])"
    by auto
  have g: "dict_get ?wd ''temperature'' 25 = 25" "dict_get ?wd ''humidity'' 60 = 60"
    "dict_get ?wd ''wind_speed'' 5 = 4"
    by (simp_all add: dict_get_def)
  from t [where r = r and l = "[r]", THEN conjunct2, THEN conjunct2, rule_format,
      OF conjI [OF r lookup_crop_tomato]]
  have q: "calculate_et (dict_get ?wd ''temperature'' 25) (dict_get ?wd ''humidity'' 60)
          (dict_get ?wd ''wind_speed'' 5) ''vegetative'' tomato_profile
          = Inr (daily_et_mm (an_evapotranspiration (r_analysis r)))
        \<and> water_loss_rate (an_evapotranspiration (r_analysis r)) =
            water_loss_rate_of (daily_et_mm (an_evapotranspiration (r_analysis r)))" .
  have dq: "daily_et_mm (an_evapotranspiration (r_analysis r)) = 4.488864"
    using q [THEN conjunct1, unfolded g e', symmetric] by (simp only: sum.inject)
  have wq: "water_loss_rate (an_evapotranspiration (r_analysis r)) = ''moderate''"
    by (rule trans [OF q [THEN conjunct2, unfolded dq] b [THEN conjunct2]])
  from w e e' b r dq wq show ?thesis by blast
qed

subsection \<open>A negative irrigation amount\<close>

text \<open>
  C9. The irrigation amount is not bounded below by 0. For maize at stage tasseling the
  stage-adjusted optimal minimum, the float product \<^verbatim>\<open>55 * 1.4\<close>, is 77, above the
  optimal maximum 75 that the deficit is taken from; with soil moisture 76, a rain
  probability below 30, a wind speed that is not negative, a positive field capacity and
  all readings and the field capacity within the range of doubles the decision is IRRIGATE
  and both the irrigation amount and the irrigation duration of the returned record are
  strictly negative.
\<close>

theorem negative_irrigation_amount:
  assumes "soil_data ''soil_moisture'' = Some 76"
    and "dict_get weather_data ''rain_probability'' 0 < 30"
    and "0 \<le> dict_get weather_data ''wind_speed'' 5"
    and "0 < field_capacity"
    and "\<not> float_overflow field_capacity"
    and "readings_in_float_range soil_data weather_data"
  shows "\<exists>r. analyze decision_log now soil_data weather_data (Some ''maize'') ''tasseling'' field_capacity
              = Inr (r, decision_log @ [r])
           \<and> r_decision r = IrrigationAdvice_value IRRIGATE
           \<and> irrigation_amount_mm (r_recommendations r) < 0
           \<and> irrigation_duration_minutes (r_recommendations r) < 0
           \<and> float_mul (moisture_optimal_min maize_profile) (stage_factor_of maize_profile ''tasseling'') = 77
           \<and> moisture_optimal_max maize_profile = 75"
proof -
  have m: "dict_get soil_data ''soil_moisture'' 50 = 76"
    using assms(1) by (simp add: dict_get_def)
  have omin: "float_mul (moisture_optimal_min maize_profile) (stage_factor_of maize_profile ''tasseling'') = 77"
    by (simp add: maize_profile_def stage_factor_of_def float_eval)
  have ms: "analyze_moisture 76 maize_profile ''tasseling'' = ''LOW''"
    unfolding analyze_moisture_def Let_def stage_factor_of_eq omin
    by (simp add: maize_profile_def)
  have ws: "analyze_weather weather_data \<notin> {''HEAVY_RAIN_EXPECTED'', ''RAIN_LIKELY''}"
    using assms(2) by (simp add: analyze_weather_def Let_def)
  have d: "make_decision 76 ''LOW'' (analyze_weather weather_data)
             (dict_get weather_data ''rain_probability'' 0) maize_profile [] = IRRIGATE"
    using ws assms(2) by (simp add: make_decision_def)
  have om: "moisture_optimal_max maize_profile = 75" by (simp add: maize_profile_def)
  have f: "make_decision (dict_get soil_data ''soil_moisture'' 50)
      (analyze_moisture (dict_get soil_data ''soil_moisture'' 50) maize_profile ''tasseling'')
      (analyze_weather weather_data) (dict_get weather_data ''rain_probability'' 0) maize_profile []
      = IRRIGATE \<longrightarrow> \<not> float_overflow field_capacity"
    using assms(5) by simp
  from analyze_returns_in_range [where decision_log = decision_log and now = now
      and growth_stage = "''tasseling''", OF lookup_crop_maize assms(6) assms(3) refl refl f]
  obtain r where r: "analyze decision_log now soil_data weather_data (Some ''maize'') ''tasseling''
        field_capacity = Inr (r, decision_log @ [r])"
    and i: "r_decision r = IrrigationAdvice_value IRRIGATE"
    and a: "irrigation_amount_mm (r_recommendations r) = ((75 - 76) / 100) * field_capacity"
    and u: "irrigation_duration_minutes (r_recommendations r) =
              (irrigation_amount_mm (r_recommendations r) / 10) * 60"
    unfolding m ms d om by auto
  have "irrigation_amount_mm (r_recommendations r) < 0" using a assms(4) by simp
  moreover from this have "irrigation_duration_minutes (r_recommendations r) < 0"
    unfolding u by simp
  ultimately show ?thesis using r i om omin by blast
qed

theorem negative_irrigation_amount_witness:
  "[''soil_moisture'' \<mapsto> (76::real)] ''soil_moisture'' = Some 76
   \<and> dict_get [''rain_probability'' \<mapsto> (20::real)] ''rain_probability'' 0 < 30
   \<and> 0 \<le> dict_get [''rain_probability'' \<mapsto> (20::real)] ''wind_speed'' 5
   \<and> (0::real) < 100
   \<and> \<not> float_overflow 100
   \<and> readings_in_float_range [''soil_moisture'' \<mapsto> 76] [''rain_probability'' \<mapsto> 20]
   \<and> (\<exists>r. analyze [] ''now'' [''soil_moisture'' \<mapsto> 76] [''rain_probability'' \<mapsto> 20]
              (Some ''maize'') ''tasseling'' 100 = Inr (r, [] @ [r])
           \<and> r_decision r = IrrigationAdvice_value IRRIGATE
           \<and> irrigation_amount_mm (r_recommendations r) < 0
           \<and> irrigation_duration_minutes (r_recommendations r) < 0)"
proof -
  have a: "[''soil_moisture'' \<mapsto> (76::real)] ''soil_moisture'' = Some 76" by simp
  have b: "dict_get [''rain_probability'' \<mapsto> (20::real)] ''rain_probability'' 0 < 30"
    by (simp add: dict_get_def)
  have c: "0 \<le> dict_get [''rain_probability'' \<mapsto> (20::real)] ''wind_speed'' 5"
    by (simp add: dict_get_def)
  have d: "(0::real) < 100" by simp
  have e: "\<not> float_overflow 100" by (simp add: float_overflow_small)
  have f: "readings_in_float_range [''soil_moisture'' \<mapsto> 76] [''rain_probability'' \<mapsto> 20]"
    by (rule readings_in_float_range_small) simp
  from negative_irrigation_amount [where soil_data = "[''soil_moisture'' \<mapsto> 76]"
      and weather_data = "[''rain_probability'' \<mapsto> 20]" and field_capacity = 100
      and decision_log = "[]" and now = "''now''", OF a b c d e f] a b c d e f
  show ?thesis by blast
qed

subsection \<open>The decision log\<close>

text \<open>
  C10, as stated, fails: a call of \<^verbatim>\<open>analyze\<close> that raises appends nothing. With the wind
  speed -1 the power \<^verbatim>\<open>wind**0.5\<close> is complex, \<^verbatim>\<open>max(0, et_daily)\<close> raises
  \<^verbatim>\<open>TypeError\<close> at line 343, and line 253 is not reached: the log keeps its length.
\<close>

theorem analyze_raises_without_logging:
  "analyze [] ''now'' Map.empty [''wind_speed'' \<mapsto> - 1] (Some ''tomato'') ''vegetative'' 100
     = Inl TypeError
   \<and> decision_log_after [] ''now'' Map.empty [''wind_speed'' \<mapsto> - 1] (Some ''tomato'') ''vegetative'' 100
     = []
   \<and> length (decision_log_after [] ''now'' Map.empty [''wind_speed'' \<mapsto> - 1] (Some ''tomato'')
        ''vegetative'' 100) \<noteq> length ([] :: response list) + 1"
proof -
  let ?wd = "[''wind_speed'' \<mapsto> (- 1::real)]"
  have rg: "readings_in_float_range Map.empty ?wd"
    by (rule readings_in_float_range_small) simp
  from collect_alerts_in_range [OF rg, of tomato_profile] obtain st where
    a: "collect_alerts (dict_get Map.empty ''soil_moisture'' 50)
           (dict_get ?wd ''rain_probability'' 0) (dict_get ?wd ''rain_amount_mm'' 0)
           (dict_get Map.empty ''nitrogen'' 100) (dict_get Map.empty ''phosphorus'' 40)
           (dict_get Map.empty ''potassium'' 150) (dict_get Map.empty ''ph'' 6.5)
           (dict_get Map.empty ''temperature'' 22) tomato_profile = Inr st" ..
  have e: "evapotranspiration_of_readings (dict_get ?wd ''temperature'' 25)
           (dict_get ?wd ''humidity'' 60) (dict_get ?wd ''wind_speed'' 5)
           ''vegetative'' tomato_profile = Inl TypeError"
    by (simp add: evapotranspiration_of_readings_def calculate_et_def dict_get_def float_overflow_def)
  have "analyze [] ''now'' Map.empty ?wd (Some ''tomato'') ''vegetative'' 100 = Inl TypeError"
    by (rule analyze_et_raises [OF lookup_crop_tomato a e])
  then show ?thesis by (simp add: decision_log_after_def)
qed

text \<open>
  C10, amended. Every call of \<^verbatim>\<open>analyze\<close> that returns appends exactly its response at
  the end of the decision log and changes no earlier entry, so the length grows by 1 and
  the old log is a prefix of the new one; a call that raises leaves the log as it was.
\<close>

theorem analyze_appends_one_record:
  "(analyze decision_log now soil_data weather_data crop_type growth_stage field_capacity = Inr (r, l) \<longrightarrow>
      l = decision_log @ [r]
      \<and> decision_log_after decision_log now soil_data weather_data crop_type growth_stage field_capacity
          = decision_log @ [r]
      \<and> length l = length decision_log + 1
      \<and> take (length decision_log) l = decision_log
      \<and> (\<forall>i < length decision_log. l ! i = decision_log ! i))
   \<and> (analyze decision_log now soil_data weather_data crop_type growth_stage field_capacity = Inl e \<longrightarrow>
        decision_log_after decision_log now soil_data weather_data crop_type growth_stage field_capacity
          = decision_log)"
proof (intro conjI impI)
  assume a: "analyze decision_log now soil_data weather_data crop_type growth_stage field_capacity = Inr (r, l)"
  from a show l: "l = decision_log @ [r]" by (rule analyze_InrD)
  from a show "decision_log_after decision_log now soil_data weather_data crop_type growth_stage
      field_capacity = decision_log @ [r]"
    unfolding decision_log_after_def l by simp
  show "length l = length decision_log + 1" unfolding l by simp
  show "take (length decision_log) l = decision_log" unfolding l by simp
  show "\<forall>i < length decision_log. l ! i = decision_log ! i" unfolding l by (simp add: nth_append)
next
  assume "analyze decision_log now soil_data weather_data crop_type growth_stage field_capacity = Inl e"
  then show "decision_log_after decision_log now soil_data weather_data crop_type growth_stage
      field_capacity = decision_log"
    by (simp add: decision_log_after_def)
qed

theorem analyze_appends_one_record_witness:
  "\<exists>r r'. analyze [] ''now'' Map.empty Map.empty (Some ''tomato'') ''vegetative'' 100 = Inr (r, [r])
      \<and> analyze [r] ''later'' Map.empty Map.empty (Some ''maize'') ''vegetative'' 100 = Inr (r', [r, r'])
      \<and> decision_log_after [r] ''later'' Map.empty Map.empty (Some ''maize'') ''vegetative'' 100 = [r, r']
      \<and> length [r, r'] = length [r] + 1
      \<and> take (length [r]) [r, r'] = [r]
      \<and> [r, r'] ! 0 = [r] ! 0
      \<and> analyze [r] ''later'' Map.empty [''wind_speed'' \<mapsto> - 1] (Some ''maize'') ''vegetative'' 100
           = Inl TypeError
      \<and> decision_log_after [r] ''later'' Map.empty [''wind_speed'' \<mapsto> - 1] (Some ''maize'')
           ''vegetative'' 100 = [r]"
proof -
  let ?e = "Map.empty :: string \<rightharpoonup> real"
  let ?wd = "[''wind_speed'' \<mapsto> (- 1::real)]"
  have w: "0 \<le> dict_get ?e ''wind_speed'' 5" by (simp add: dict_get_def)
  have rg: "readings_in_float_range ?e ?e"
    by (rule readings_in_float_range_small) simp
  have f: "\<And>d. d = IRRIGATE \<longrightarrow> \<not> float_overflow 100" by (simp add: float_overflow_small)
  from analyze_returns_in_range [where decision_log = "[]" and now = "''now''"
      and growth_stage = "''vegetative''", OF lookup_crop_tomato rg w refl refl f]
  obtain r where r: "analyze [] ''now'' ?e ?e (Some ''tomato'') ''vegetative'' 100 = Inr (r, [r])"
    by auto
  from analyze_returns_in_range [where decision_log = "[r]" and now = "''later''"
      and growth_stage = "''vegetative''", OF lookup_crop_maize rg w refl refl f]
  obtain r' where r': "analyze [r] ''later'' ?e ?e (Some ''maize'') ''vegetative'' 100 = Inr (r', [r, r'])"
    by auto
  note t = analyze_appends_one_record [where decision_log = "[r]" and now = "''later''"
      and soil_data = ?e and crop_type = "Some ''maize''"
      and growth_stage = "''vegetative''" and field_capacity = 100]
  from t [where weather_data = ?e and r = r' and l = "[r, r']", THEN conjunct1, rule_format, OF r']
  have p: "decision_log_after [r] ''later'' ?e ?e (Some ''maize'') ''vegetative'' 100 = [r, r']
      \<and> length [r, r'] = length [r] + 1
      \<and> take (length [r]) [r, r'] = [r]
      \<and> [r, r'] ! 0 = [r] ! 0"
    by simp
  have rg': "readings_in_float_range ?e ?wd"
    by (rule readings_in_float_range_small) simp
  from collect_alerts_in_range [OF rg', of maize_profile] obtain st where
    a: "collect_alerts (dict_get ?e ''soil_moisture'' 50)
           (dict_get ?wd ''rain_probability'' 0) (dict_get ?wd ''rain_amount_mm'' 0)
           (dict_get ?e ''nitrogen'' 100) (dict_get ?e ''phosphorus'' 40)
           (dict_get ?e ''potassium'' 150) (dict_get ?e ''ph'' 6.5)
           (dict_get ?e ''temperature'' 22) maize_profile = Inr st" ..
  have e: "evapotranspiration_of_readings (dict_get ?wd ''temperature'' 25)
           (dict_get ?wd ''humidity'' 60) (dict_get ?wd ''wind_speed'' 5)
           ''vegetative'' maize_profile = Inl TypeError"
    by (simp add: evapotranspiration_of_readings_def calculate_et_def dict_get_def float_overflow_def)
  have x: "analyze [r] ''later'' ?e ?wd (Some ''maize'') ''vegetative'' 100 = Inl TypeError"
    by (rule analyze_et_raises [OF lookup_crop_maize a e])
  from t [where weather_data = ?wd and e = TypeError, THEN conjunct2, rule_format, OF x]
  have q: "decision_log_after [r] ''later'' ?e ?wd (Some ''maize'') ''vegetative'' 100 = [r]" .
  from r r' p x q show ?thesis by blast
qed

end
